theory Spec2Isabelle
  imports Main
begin

section \<open>JavaScript values\<close>

text \<open>
  The contact-form backend of \<^verbatim>\<open>server.js\<close>. A \<^typ>\<open>char\<close> stands for one UTF-16 code
  unit below 256 (ASCII and Latin-1, which is the range the name pattern
  \<^verbatim>\<open>/^[a-zA-Z\u00C0-\u00FF\s'-]+$/\<close> speaks about); strings with higher code units are outside
  the model. A value read from \<^verbatim>\<open>req.body\<close> or \<^verbatim>\<open>process.env\<close> is a string, a boolean
  or \<^verbatim>\<open>undefined\<close>; numbers, arrays and nested objects in a JSON body are outside the model.
\<close>

datatype jsval = JUndefined | JBool bool | JStr string

fun truthy :: "jsval \<Rightarrow> bool" where
  "truthy JUndefined = False"
| "truthy (JBool b) = b"
| "truthy (JStr s) = (s \<noteq> [])"

text \<open>\<^verbatim>\<open>a || b\<close>\<close>

definition js_or :: "jsval \<Rightarrow> jsval \<Rightarrow> jsval" where
  "js_or a b = (if truthy a then a else b)"

text \<open>Interpolation \<^verbatim>\<open>${v}\<close> in a template literal: \<^verbatim>\<open>String(v)\<close>.\<close>

fun interpolate :: "jsval \<Rightarrow> string" where
  "interpolate JUndefined = ''undefined''"
| "interpolate (JBool True) = ''true''"
| "interpolate (JBool False) = ''false''"
| "interpolate (JStr s) = s"

text \<open>
  The string express-validator hands to a validator or sanitizer (its \<^verbatim>\<open>toString\<close>):
  \<^verbatim>\<open>undefined\<close> becomes the empty string.
\<close>

fun toString :: "jsval \<Rightarrow> string" where
  "toString JUndefined = []"
| "toString (JBool True) = ''true''"
| "toString (JBool False) = ''false''"
| "toString (JStr s) = s"

type_synonym env = "string \<rightharpoonup> string"

text \<open>\<^verbatim>\<open>process.env.NAME\<close>\<close>

definition getenv :: "env \<Rightarrow> string \<Rightarrow> jsval" where
  "getenv e name = (case e name of None \<Rightarrow> JUndefined | Some v \<Rightarrow> JStr v)"

type_synonym body = "string \<Rightarrow> jsval"

section \<open>Validators and sanitizers\<close>

abbreviation newline :: char where
  "newline \<equiv> CHR 0x0A"

text \<open>The class \<^verbatim>\<open>\s\<close> of a JavaScript regular expression, below code unit 256.\<close>

definition js_space :: "char \<Rightarrow> bool" where
  "js_space c = ((of_char c :: nat) \<in> {9, 10, 11, 12, 13, 32, 160})"

text \<open>\<^verbatim>\<open>.trim()\<close>: leading and trailing \<^verbatim>\<open>\s\<close> removed.\<close>

definition trim :: "string \<Rightarrow> string" where
  "trim s = rev (dropWhile js_space (rev (dropWhile js_space s)))"

text \<open>\<^verbatim>\<open>.isLength({ min, max })\<close>; a missing \<^verbatim>\<open>min\<close> is 0, a missing \<^verbatim>\<open>max\<close> no bound.\<close>

definition isLength :: "nat \<Rightarrow> nat option \<Rightarrow> string \<Rightarrow> bool" where
  "isLength lo hi s =
     (lo \<le> length s \<and> (case hi of None \<Rightarrow> True | Some h \<Rightarrow> length s \<le> h))"

text \<open>One character of the class \<^verbatim>\<open>[a-zA-Z\u00C0-\u00FF\s'-]\<close>.\<close>

definition name_char :: "char \<Rightarrow> bool" where
  "name_char c =
     (let n = (of_char c :: nat) in
        (97 \<le> n \<and> n \<le> 122) \<or> (65 \<le> n \<and> n \<le> 90) \<or> (192 \<le> n \<and> n \<le> 255)
        \<or> js_space c \<or> c = CHR 0x27 \<or> c = CHR ''-'')"

text \<open>\<^verbatim>\<open>.matches(/^[a-zA-Z\u00C0-\u00FF\s'-]+$/)\<close>: one or more characters, all of the class.\<close>

definition name_pattern :: "string \<Rightarrow> bool" where
  "name_pattern s = (s \<noteq> [] \<and> list_all name_char s)"

text \<open>
  What the program takes from outside its own code: the two validator.js functions whose
  rules the source does not spell out (\<^verbatim>\<open>isEmail\<close>, and \<^verbatim>\<open>normalizeEmail\<close>, which returns
  a string or \<^verbatim>\<open>false\<close>), the outcome of the HTTP call to the verification service, of
  \<^verbatim>\<open>transporter.verify()\<close> and of each send (\<^const>\<open>True\<close>: the promise resolves), and the
  clock's \<^verbatim>\<open>new Date().toLocaleString()\<close>.
\<close>

datatype response_data =
    DataObject (success: jsval) (error_codes: "string list option")
  | DataText string
  | DataNull

datatype axios_result = Rejected | Resolved response_data

datatype port = PortString string | PortNumber nat

datatype transport =
    GmailTransport jsval jsval
  | SmtpTransport (smtp_host: jsval) (smtp_port: port) (smtp_secure: bool)
      (smtp_user: jsval) (smtp_pass: jsval)

datatype resend_client = Resend string

record mail =
  mail_from :: jsval
  mail_to :: jsval
  mail_subject :: string
  mail_html :: string

record externals =
  isEmail :: "string \<Rightarrow> bool"
  normalizeEmail :: "string \<Rightarrow> jsval"
  axios_post :: "jsval \<Rightarrow> jsval \<Rightarrow> axios_result"
  transporter_verify :: "transport \<Rightarrow> bool"
  transporter_sendMail :: "transport \<Rightarrow> mail \<Rightarrow> bool"
  resend_send :: "resend_client \<Rightarrow> mail \<Rightarrow> bool"
  toLocaleString :: string

text \<open>
  The validators of the chains, applied to the string of the value: \<^verbatim>\<open>isLength\<close>,
  \<^verbatim>\<open>matches\<close> with the pattern of the names, \<^verbatim>\<open>isEmail\<close>, \<^verbatim>\<open>notEmpty\<close> (a string of
  length one or more: blanks count as content, nothing is trimmed unless the chain says
  \<^verbatim>\<open>trim\<close>) and \<^verbatim>\<open>equals\<close>.
\<close>

datatype validator =
    IsLength nat "nat option"
  | Matches "string \<Rightarrow> bool"
  | IsEmail
  | NotEmpty
  | Equals string

fun holds :: "externals \<Rightarrow> validator \<Rightarrow> string \<Rightarrow> bool" where
  "holds x (IsLength lo hi) s = isLength lo hi s"
| "holds x (Matches p) s = p s"
| "holds x IsEmail s = isEmail x s"
| "holds x NotEmpty s = (s \<noteq> [])"
| "holds x (Equals t) s = (s = t)"

text \<open>
  One validation chain \<^verbatim>\<open>body(name). ... \<close>, as the list of its steps in source order. A
  \<^verbatim>\<open>withMessage\<close> belongs to the validator before it (a sanitizer in between does not take
  it), so \<open>Check v m\<close> is the validator \<open>v\<close> with its message \<open>m\<close>.
\<close>

datatype step = Trim | NormalizeEmail | Optional | Check validator string

datatype error_entry = FieldError (param: string) (msg: string) | PlainError string

text \<open>
  Running the steps of a chain on the field's value: a sanitizer replaces the value, a failed
  validator adds one error and the chain goes on, \<^verbatim>\<open>optional()\<close> stops the chain when the field
  is \<^verbatim>\<open>undefined\<close>.
\<close>

fun run_steps :: "externals \<Rightarrow> string \<Rightarrow> step list \<Rightarrow> jsval \<Rightarrow> jsval \<times> error_entry list" where
  "run_steps x f [] v = (v, [])"
| "run_steps x f (Trim # ss) v = run_steps x f ss (JStr (trim (toString v)))"
| "run_steps x f (NormalizeEmail # ss) v = run_steps x f ss (normalizeEmail x (toString v))"
| "run_steps x f (Optional # ss) v = (if v = JUndefined then (v, []) else run_steps x f ss v)"
| "run_steps x f (Check c m # ss) v =
     (let (v', es) = run_steps x f ss v
      in (v', (if holds x c (toString v) then [] else [FieldError f m]) @ es))"

type_synonym chain = "string \<times> step list"

text \<open>A chain reads its field from the body and writes the sanitized value back.\<close>

definition run_chain :: "externals \<Rightarrow> chain \<Rightarrow> body \<Rightarrow> body \<times> error_entry list" where
  "run_chain x c b =
     (let (v, es) = run_steps x (fst c) (snd c) (b (fst c)) in (b(fst c := v), es))"

fun run_chains :: "externals \<Rightarrow> chain list \<Rightarrow> body \<Rightarrow> body \<times> error_entry list" where
  "run_chains x [] b = (b, [])"
| "run_chains x (c # cs) b =
     (let (b1, e1) = run_chain x c b; (b2, e2) = run_chains x cs b1 in (b2, e1 @ e2))"

definition contactFormValidation :: "chain list" where
  "contactFormValidation =
    [(''First-Name'',
        [Trim,
         Check (IsLength 2 (Some 50)) ''First name must be between 2 and 50 characters'',
         Check (Matches name_pattern) ''First name contains invalid characters'']),
     (''Last-Name'',
        [Trim,
         Check (IsLength 2 (Some 50)) ''Last name must be between 2 and 50 characters'',
         Check (Matches name_pattern) ''Last name contains invalid characters'']),
     (''email'',
        [Check IsEmail ''Please provide a valid email address'',
         NormalizeEmail]),
     (''field'',
        [Check NotEmpty ''Please select your job title'']),
     (''name-2'',
        [Trim,
         Check (IsLength 2 (Some 100))
           ''Healthcare institution name must be between 2 and 100 characters'']),
     (''field-2'',
        [Optional,
         Trim,
         Check (IsLength 0 (Some 1000)) ''Message must not exceed 1000 characters'']),
     (''checkbox'',
        [Check (Equals ''on'') ''You must agree to be contacted by the Jaide team'']),
     (''g-recaptcha-response'',
        [Check NotEmpty ''Please complete the reCAPTCHA verification''])]"

section \<open>Verification client\<close>

datatype fault =
    SecretNotConfigured
  | RequestRejected
  | TypeError
  | ResendNotConfigured
  | VerifyRejected
  | SendRejected

datatype log_entry =
    RecaptchaVerificationError fault
  | RecaptchaVerificationFailed "string list option"
  | ProcessingError fault
  | ProcessedSuccessfully string string string
  | UnhandledError

datatype event =
    AxiosPost jsval jsval
  | Console log_entry
  | TransporterVerify transport
  | SendMail transport mail
  | ResendSend resend_client mail

text \<open>\<^verbatim>\<open>{ success: false, 'error-codes': ['request-failed'] }\<close>\<close>

definition request_failed :: response_data where
  "request_failed = DataObject (JBool False) (Some [''request-failed''])"

text \<open>
  The \<^verbatim>\<open>try\<close> block of \<^verbatim>\<open>verifyRecaptcha\<close>: the thrown error or \<^verbatim>\<open>response.data\<close>, with the
  calls made.
\<close>

definition verifyRecaptcha_try ::
    "externals \<Rightarrow> env \<Rightarrow> jsval \<Rightarrow> (fault + response_data) \<times> event list" where
  "verifyRecaptcha_try x e token =
     (let secretKey = getenv e ''RECAPTCHA_SECRET_KEY'' in
      if \<not> truthy secretKey then (Inl SecretNotConfigured, [])
      else (case axios_post x secretKey token of
              Rejected \<Rightarrow> (Inl RequestRejected, [AxiosPost secretKey token])
            | Resolved d \<Rightarrow> (Inr d, [AxiosPost secretKey token])))"

text \<open>\<^verbatim>\<open>verifyRecaptcha\<close>: the \<^verbatim>\<open>catch\<close> logs the error and returns \<^const>\<open>request_failed\<close>.\<close>

definition verifyRecaptcha :: "externals \<Rightarrow> env \<Rightarrow> jsval \<Rightarrow> response_data \<times> event list" where
  "verifyRecaptcha x e token =
     (case verifyRecaptcha_try x e token of
        (Inr d, evs) \<Rightarrow> (d, evs)
      | (Inl err, evs) \<Rightarrow> (request_failed, evs @ [Console (RecaptchaVerificationError err)]))"

text \<open>
  \<^verbatim>\<open>recaptchaResult.success\<close> and \<^verbatim>\<open>recaptchaResult['error-codes']\<close>: a property of a string is
  \<^verbatim>\<open>undefined\<close>, a property of \<^verbatim>\<open>null\<close> throws.
\<close>

fun success_property :: "response_data \<Rightarrow> fault + jsval" where
  "success_property (DataObject s c) = Inr s"
| "success_property (DataText t) = Inr JUndefined"
| "success_property DataNull = Inl TypeError"

fun error_codes_property :: "response_data \<Rightarrow> string list option" where
  "error_codes_property (DataObject s c) = c"
| "error_codes_property (DataText t) = None"
| "error_codes_property DataNull = None"

section \<open>Email composer\<close>

text \<open>
  The fixed pieces of the two HTML templates, in the order in which the interpolated values
  separate them, with the source's line breaks and indentation.
\<close>

definition team_html_head :: string where
  \<open>team_html_head =
   newline #
   ''        <div style="font-family: Arial, sans-serif; max-width: 600px; margin: 0 auto;">'' @ newline #
   ''          <h2 style="color: #4CAF50;">New Contact Form Submission</h2>'' @ newline #
   ''          '' @ newline #
   ''          <div style="background: #f8f9fa; padding: 20px; border-radius: 8px; margin: 20px 0;">'' @ newline #
   ''            <h3 style="margin-top: 0; color: #333;">Contact Information</h3>'' @ newline #
   ''            <p><strong>Name:</strong> ''\<close>

definition team_html_name_sep :: string where
  \<open>team_html_name_sep =
   '' ''\<close>

definition team_html_email_href :: string where
  \<open>team_html_email_href =
   ''</p>'' @ newline #
   ''            <p><strong>Email:</strong> <a href="mailto:''\<close>

definition team_html_email_text :: string where
  \<open>team_html_email_text =
   ''">''\<close>

definition team_html_job_title :: string where
  \<open>team_html_job_title =
   ''</a></p>'' @ newline #
   ''            <p><strong>Job Title:</strong> ''\<close>

definition team_html_institution :: string where
  \<open>team_html_institution =
   ''</p>'' @ newline #
   ''            <p><strong>Healthcare Institution:</strong> ''\<close>

definition team_html_contact_end :: string where
  \<open>team_html_contact_end =
   ''</p>'' @ newline #
   ''          </div>'' @ newline #
   ''          '' @ newline #
   ''          ''\<close>

definition message_section_open :: string where
  \<open>message_section_open =
   newline #
   ''          <div style="background: #fff; padding: 20px; border-left: 4px solid #4CAF50; margin: 20px 0;">'' @ newline #
   ''            <h3 style="margin-top: 0; color: #333;">Message</h3>'' @ newline #
   ''            <p style="line-height: 1.6;">''\<close>

definition message_section_close :: string where
  \<open>message_section_close =
   ''</p>'' @ newline #
   ''          </div>'' @ newline #
   ''          ''\<close>

definition team_html_footer :: string where
  \<open>team_html_footer =
   newline #
   ''          '' @ newline #
   ''          <div style="margin-top: 30px; padding-top: 20px; border-top: 1px solid #eee; color: #666; font-size: 12px;">'' @ newline #
   ''            <p>This email was sent from the jaide.care contact form on ''\<close>

definition team_html_end :: string where
  \<open>team_html_end =
   ''.</p>'' @ newline #
   ''          </div>'' @ newline #
   ''        </div>'' @ newline #
   ''      ''\<close>

definition user_html_head :: string where
  \<open>user_html_head =
   newline #
   ''        <div style="font-family: Arial, sans-serif; max-width: 600px; margin: 0 auto;">'' @ newline #
   ''          <div style="text-align: center; margin-bottom: 30px;">'' @ newline #
   ''            <img src="https://jaide.care/images/jaide-logo---rectangle---no-background.png" alt="Jaide Logo" style="max-width: 200px;">'' @ newline #
   ''          </div>'' @ newline #
   ''          '' @ newline #
   ''          <h2 style="color: #4CAF50;">Thank you for your interest in Jaide!</h2>'' @ newline #
   ''          '' @ newline #
   ''          <p>Dear ''\<close>

definition user_html_tail :: string where
  \<open>user_html_tail =
   '',</p>'' @ newline #
   ''          '' @ newline #
   ''          <p>Thank you for reaching out to us. We have received your contact form submission and our team will review your request shortly.</p>'' @ newline #
   ''          '' @ newline #
   ''          <div style="background: #f8f9fa; padding: 20px; border-radius: 8px; margin: 20px 0;">'' @ newline #
   ''            <h3 style="margin-top: 0; color: #333;">What happens next?</h3>'' @ newline #
   ''            <ul style="line-height: 1.6;">'' @ newline #
   ''              <li>Our team will review your request within 24 hours</li>'' @ newline #
   ''              <li>A member of our team will contact you to discuss your needs</li>'' @ newline #
   ''              <li>We can schedule a personalized demo of jaide'' @ [CHR 0x27] @ ''s AI solutions</li>'' @ newline #
   ''            </ul>'' @ newline #
   ''          </div>'' @ newline #
   ''          '' @ newline #
   ''          <p>In the meantime, you can book a demo slot directly using the link below:</p>'' @ newline #
   ''          '' @ newline #
   ''          <div style="text-align: center; margin: 30px 0;">'' @ newline #
   ''            <a href="https://calendar.notion.so/meet/camille-m52pt1shz/0d4pv3lcz" '' @ newline #
   ''               style="background: #4CAF50; color: white; padding: 12px 24px; text-decoration: none; border-radius: 6px; font-weight: bold;">'' @ newline #
   ''              Book a Demo'' @ newline #
   ''            </a>'' @ newline #
   ''          </div>'' @ newline #
   ''          '' @ newline #
   ''          <p>If you have any urgent questions, feel free to contact us directly at <a href="mailto:contact@jaide.care">contact@jaide.care</a>.</p>'' @ newline #
   ''          '' @ newline #
   ''          <p>Best regards,<br>The Jaide Team</p>'' @ newline #
   ''          '' @ newline #
   ''          <div style="margin-top: 40px; padding-top: 20px; border-top: 1px solid #eee; color: #666; font-size: 12px;">'' @ newline #
   ''            <p>This is an automated confirmation email. Please do not reply to this email.</p>'' @ newline #
   ''            <p>Jaide - AI that cares | <a href="https://jaide.care">jaide.care</a></p>'' @ newline #
   ''          </div>'' @ newline #
   ''        </div>'' @ newline #
   ''      ''\<close>

text \<open>\<^verbatim>\<open>message.replace(/\n/g, '<br>')\<close>\<close>

definition replace_newlines :: "string \<Rightarrow> string" where
  "replace_newlines s = concat (map (\<lambda>c. if c = newline then ''<br>'' else [c]) s)"

text \<open>
  \<^verbatim>\<open>${message ? `...${message.replace(...)}...` : ''}\<close>; \<^verbatim>\<open>replace\<close> exists on strings only.
\<close>

definition message_section :: "jsval \<Rightarrow> fault + string" where
  "message_section message =
     (if truthy message then
        (case message of
           JStr m \<Rightarrow> Inr (message_section_open @ replace_newlines m @ message_section_close)
         | _ \<Rightarrow> Inl TypeError)
      else Inr [])"

text \<open>The destructuring default \<^verbatim>\<open>'field-2': message = ''\<close>.\<close>

definition message_of :: "body \<Rightarrow> jsval" where
  "message_of b = (if b ''field-2'' = JUndefined then JStr [] else b ''field-2'')"

definition team_html :: "externals \<Rightarrow> body \<Rightarrow> string \<Rightarrow> string" where
  "team_html x b section =
     team_html_head @ interpolate (b ''First-Name'') @ team_html_name_sep
       @ interpolate (b ''Last-Name'')
       @ team_html_email_href @ interpolate (b ''email'')
       @ team_html_email_text @ interpolate (b ''email'')
       @ team_html_job_title @ interpolate (b ''field'')
       @ team_html_institution @ interpolate (b ''name-2'')
       @ team_html_contact_end @ section
       @ team_html_footer @ toLocaleString x @ team_html_end"

definition mailToTeam :: "externals \<Rightarrow> env \<Rightarrow> body \<Rightarrow> fault + mail" where
  "mailToTeam x e b =
     (case message_section (message_of b) of
        Inl err \<Rightarrow> Inl err
      | Inr section \<Rightarrow>
          Inr \<lparr> mail_from = js_or (getenv e ''EMAIL_FROM'') (getenv e ''EMAIL_USER''),
                mail_to = js_or (getenv e ''EMAIL_TO'') (JStr ''contact@jaide.care''),
                mail_subject =
                  ''New Contact Form Submission from '' @ interpolate (b ''First-Name'')
                    @ '' '' @ interpolate (b ''Last-Name''),
                mail_html = team_html x b section \<rparr>)"

definition mailToUser :: "env \<Rightarrow> body \<Rightarrow> mail" where
  "mailToUser e b =
     \<lparr> mail_from = js_or (getenv e ''EMAIL_FROM'') (getenv e ''EMAIL_USER''),
       mail_to = b ''email'',
       mail_subject =
         ''Thank you for contacting Jaide - We'' @ [CHR 0x27] @ ''ll be in touch soon'',
       mail_html = user_html_head @ interpolate (b ''First-Name'') @ user_html_tail \<rparr>"

section \<open>Delivery dispatcher\<close>

text \<open>\<^verbatim>\<open>createTransporter\<close>: the options handed to \<^verbatim>\<open>nodemailer.createTransport\<close>.\<close>

definition createTransporter :: "env \<Rightarrow> transport" where
  "createTransporter e =
     (if e ''EMAIL_SERVICE'' = Some ''gmail'' then
        GmailTransport (getenv e ''EMAIL_USER'') (getenv e ''EMAIL_APP_PASSWORD'')
      else
        SmtpTransport (getenv e ''SMTP_HOST'')
          (let p = getenv e ''SMTP_PORT'' in
           if truthy p then PortString (toString p) else PortNumber 587)
          (e ''SMTP_SECURE'' = Some ''true'')
          (getenv e ''SMTP_USER'') (getenv e ''SMTP_PASSWORD''))"

text \<open>
  The module-level \<^verbatim>\<open>resend\<close>: a client when \<^verbatim>\<open>RESEND_API_KEY\<close> is set at startup, else
  \<^verbatim>\<open>null\<close>.
\<close>

definition init_resend :: "env \<Rightarrow> resend_client option" where
  "init_resend e =
     (case getenv e ''RESEND_API_KEY'' of
        JStr k \<Rightarrow> if k \<noteq> [] then Some (Resend k) else None
      | _ \<Rightarrow> None)"

text \<open>
  The block that sends the two messages. In \<^verbatim>\<open>Promise.all([send(a), send(b)])\<close> both sends are
  started before either outcome is awaited; the await throws when one of them rejects.
\<close>

definition dispatch ::
    "externals \<Rightarrow> env \<Rightarrow> resend_client option \<Rightarrow> mail \<Rightarrow> mail \<Rightarrow> (fault + unit) \<times> event list" where
  "dispatch x e resend team user =
     (if e ''EMAIL_SERVICE'' = Some ''resend'' then
        (case resend of
           None \<Rightarrow> (Inl ResendNotConfigured, [])
         | Some client \<Rightarrow>
             (let fromAddress = js_or (getenv e ''EMAIL_FROM'') (JStr ''onboarding@resend.dev'');
                  m1 = \<lparr> mail_from = fromAddress, mail_to = mail_to team,
                         mail_subject = mail_subject team, mail_html = mail_html team \<rparr>;
                  m2 = \<lparr> mail_from = fromAddress, mail_to = mail_to user,
                         mail_subject = mail_subject user, mail_html = mail_html user \<rparr>
              in (if resend_send x client m1 \<and> resend_send x client m2 then Inr ()
                  else Inl SendRejected,
                  [ResendSend client m1, ResendSend client m2])))
      else
        (let transporter = createTransporter e in
         if \<not> transporter_verify x transporter then
           (Inl VerifyRejected, [TransporterVerify transporter])
         else
           (if transporter_sendMail x transporter team \<and> transporter_sendMail x transporter user
            then Inr () else Inl SendRejected,
            [TransporterVerify transporter,
             SendMail transporter team, SendMail transporter user])))"

section \<open>Request handler\<close>

datatype response =
    Json nat bool string "error_entry list option"
  | Text nat string

fun status :: "response \<Rightarrow> nat" where
  "status (Json n ok m es) = n"
| "status (Text n m) = n"

definition server_error :: response where
  "server_error =
     Json 500 False
       ''Sorry, there was an error processing your request. Please try again later.'' None"

definition validation_failed :: "error_entry list \<Rightarrow> response" where
  "validation_failed es = Json 400 False ''Validation failed'' (Some es)"

definition recaptcha_failed :: response where
  "recaptcha_failed =
     Json 400 False ''reCAPTCHA verification failed. Please try again.''
       (Some [PlainError ''reCAPTCHA verification failed''])"

definition thank_you :: response where
  "thank_you =
     Json 200 True ''Thank you for your submission. We will get in touch soon!'' None"

text \<open>
  The validation chains followed by the handler of \<^verbatim>\<open>POST /submit-contact\<close>: the response
  and what was done on the way, in order. Every error thrown inside the handler's \<^verbatim>\<open>try\<close>
  ends in its \<^verbatim>\<open>catch\<close>.
\<close>

definition submit_contact ::
    "externals \<Rightarrow> env \<Rightarrow> resend_client option \<Rightarrow> body \<Rightarrow> response \<times> event list" where
  "submit_contact x e resend b0 =
     (let (b, errors) = run_chains x contactFormValidation b0 in
      if errors \<noteq> [] then (validation_failed errors, [])
      else
        (let (recaptchaResult, ev1) = verifyRecaptcha x e (b ''g-recaptcha-response'') in
         case success_property recaptchaResult of
           Inl err \<Rightarrow> (server_error, ev1 @ [Console (ProcessingError err)])
         | Inr ok \<Rightarrow>
             if \<not> truthy ok then
               (recaptcha_failed,
                ev1 @ [Console (RecaptchaVerificationFailed
                                  (error_codes_property recaptchaResult))])
             else
               (case mailToTeam x e b of
                  Inl err \<Rightarrow> (server_error, ev1 @ [Console (ProcessingError err)])
                | Inr team \<Rightarrow>
                    (let (r, ev2) = dispatch x e resend team (mailToUser e b) in
                     case r of
                       Inl err \<Rightarrow> (server_error, ev1 @ ev2 @ [Console (ProcessingError err)])
                     | Inr u \<Rightarrow>
                         (thank_you,
                          ev1 @ ev2 @
                          [Console (ProcessedSuccessfully
                             (interpolate (b ''First-Name'')) (interpolate (b ''Last-Name''))
                             (interpolate (b ''email'')))])))))"

text \<open>The email-send operations among the events.\<close>

fun is_send :: "event \<Rightarrow> bool" where
  "is_send (SendMail t m) = True"
| "is_send (ResendSend c m) = True"
| "is_send ev = False"

fun recipient :: "event \<Rightarrow> jsval" where
  "recipient (SendMail t m) = mail_to m"
| "recipient (ResendSend c m) = mail_to m"
| "recipient ev = JUndefined"

definition sends :: "event list \<Rightarrow> event list" where
  "sends evs = filter is_send evs"

section \<open>Rate limiter\<close>

text \<open>
  Modelled from the spec: the rate-limit middleware. The source configures it
  (\<^verbatim>\<open>windowMs: 15 * 60 * 1000\<close>, \<^verbatim>\<open>max: 5\<close>, the message) and puts it first on the route; the
  counting itself is the work of the express-rate-limit package, which is not among the
  source files. The spec: per-IP request counters, keyed by client IP, with a fixed time
  window and a fixed cap; expiry is time-based eviction. A counter holds the hits of the
  current window and the time the window ends; the first request of an IP, or the first
  after the window's end, opens a new window; a request is let through while the hits,
  itself included, do not exceed the cap.
\<close>

definition windowMs :: nat where
  "windowMs = 15 * 60 * 1000"

definition max_hits :: nat where
  "max_hits = 5"

type_synonym counters = "string \<rightharpoonup> nat \<times> nat"

definition limiter :: "counters \<Rightarrow> nat \<Rightarrow> string \<Rightarrow> counters \<times> bool" where
  "limiter cs now ip =
     (let (hits, reset) =
            (case cs ip of
               None \<Rightarrow> (0, now + windowMs)
             | Some (h, r) \<Rightarrow> if r \<le> now then (0, now + windowMs) else (h, r))
      in (cs(ip \<mapsto> (hits + 1, reset)), hits + 1 \<le> max_hits))"

definition too_many :: response where
  "too_many = Text 429 ''Too many form submissions from this IP, please try again later.''"

text \<open>
  What arrives as the body of a request: the body parsers mounted on the whole application
  (\<^verbatim>\<open>bodyParser.json()\<close>, \<^verbatim>\<open>bodyParser.urlencoded\<close>) either produce \<^verbatim>\<open>req.body\<close> or, when
  the payload cannot be parsed, pass an error on.
\<close>

datatype payload = Unparseable | Parsed body

fun parsed :: "payload \<Rightarrow> bool" where
  "parsed Unparseable = False"
| "parsed (Parsed b) = True"

record request =
  req_time :: nat
  req_ip :: string
  req_payload :: payload

text \<open>The error-handling middleware at the end of the application.\<close>

definition internal_server_error :: response where
  "internal_server_error = Json 500 False ''Internal server error'' None"

text \<open>
  A request to \<^verbatim>\<open>POST /submit-contact\<close>. The body parsers come first: an error of theirs
  skips the route and ends in the error-handling middleware, which logs it and answers 500;
  the limiter does not see such a request. Otherwise the route
  \<^verbatim>\<open>app.post('/submit-contact', limiter, contactFormValidation, handler)\<close> runs: the limiter
  answers a request over the cap itself, and neither the chains nor the handler run.
\<close>

definition post_submit_contact ::
    "externals \<Rightarrow> env \<Rightarrow> resend_client option \<Rightarrow> counters \<Rightarrow> request
      \<Rightarrow> counters \<times> response \<times> event list" where
  "post_submit_contact x e resend cs rq =
     (case req_payload rq of
        Unparseable \<Rightarrow> (cs, internal_server_error, [Console UnhandledError])
      | Parsed b \<Rightarrow>
          (let (cs', pass) = limiter cs (req_time rq) (req_ip rq) in
           if pass then (cs', submit_contact x e resend b)
           else (cs', too_many, [])))"

text \<open>A sequence of requests, served in order of arrival.\<close>

fun serve ::
    "externals \<Rightarrow> env \<Rightarrow> resend_client option \<Rightarrow> counters \<Rightarrow> request list
      \<Rightarrow> counters \<times> (response \<times> event list) list" where
  "serve x e resend cs [] = (cs, [])"
| "serve x e resend cs (rq # rqs) =
     (let (cs1, out) = post_submit_contact x e resend cs rq;
          (cs2, outs) = serve x e resend cs1 rqs
      in (cs2, out # outs))"

text \<open>
  The requests of one IP that came to the limiter and went past it, in a log of requests
  with their outcomes (the handler itself never answers with \<^const>\<open>too_many\<close>).
\<close>

definition let_through :: "(request \<times> response \<times> event list) list \<Rightarrow> string \<Rightarrow> nat" where
  "let_through log ip =
     length (filter (\<lambda>(q, out). req_ip q = ip \<and> parsed (req_payload q)
                                \<and> fst out \<noteq> too_many) log)"

section \<open>The checks of the chains and the rules of the spec\<close>

text \<open>
  The checks which the chains of the source make, field by field (lines 99 to 141): each
  message with the condition, on the submitted value, under which the chain stays silent.
  The names and the institution are measured after trimming; the job title, the email,
  the consent box and the token are taken as submitted; a message that is not submitted at
  all passes.
\<close>

definition chain_checks :: "externals \<Rightarrow> string \<Rightarrow> (string \<times> (jsval \<Rightarrow> bool)) list" where
  "chain_checks x f =
     (if f = ''First-Name'' then
        [(''First name must be between 2 and 50 characters'',
            \<lambda>v. 2 \<le> length (trim (toString v)) \<and> length (trim (toString v)) \<le> 50),
         (''First name contains invalid characters'',
            \<lambda>v. name_pattern (trim (toString v)))]
      else if f = ''Last-Name'' then
        [(''Last name must be between 2 and 50 characters'',
            \<lambda>v. 2 \<le> length (trim (toString v)) \<and> length (trim (toString v)) \<le> 50),
         (''Last name contains invalid characters'',
            \<lambda>v. name_pattern (trim (toString v)))]
      else if f = ''email'' then
        [(''Please provide a valid email address'', \<lambda>v. isEmail x (toString v))]
      else if f = ''field'' then
        [(''Please select your job title'', \<lambda>v. toString v \<noteq> [])]
      else if f = ''name-2'' then
        [(''Healthcare institution name must be between 2 and 100 characters'',
            \<lambda>v. 2 \<le> length (trim (toString v)) \<and> length (trim (toString v)) \<le> 100)]
      else if f = ''field-2'' then
        [(''Message must not exceed 1000 characters'',
            \<lambda>v. v = JUndefined \<or> length (trim (toString v)) \<le> 1000)]
      else if f = ''checkbox'' then
        [(''You must agree to be contacted by the Jaide team'', \<lambda>v. toString v = ''on'')]
      else if f = ''g-recaptcha-response'' then
        [(''Please complete the reCAPTCHA verification'', \<lambda>v. toString v \<noteq> [])]
      else [])"

text \<open>
  The rules of the Input Validator in the words of the spec (section 4.3, and 4.2 for the
  token), each with the message the source gives for it: names of length 2 to 50 whose
  characters are letters (accented ones included), spaces, hyphens and apostrophes; an
  email that parses as a valid address, read without the blanks around it, since
  normalization trims; a job title that is non-empty after trimming; an institution name
  of length 2 to 100 after trimming; an optional message of at most 1000 characters; a
  consent field equal to the affirmative marker \<^verbatim>\<open>on\<close>; a token that is not empty. Where
  the spec does not say so, lengths are taken after trimming, as in the normalized record.
\<close>

definition spec_letter :: "char \<Rightarrow> bool" where
  "spec_letter c =
     (let n = (of_char c :: nat) in
        (97 \<le> n \<and> n \<le> 122) \<or> (65 \<le> n \<and> n \<le> 90)
        \<or> (192 \<le> n \<and> n \<le> 255 \<and> n \<noteq> 215 \<and> n \<noteq> 247))"

definition spec_name_char :: "char \<Rightarrow> bool" where
  "spec_name_char c = (spec_letter c \<or> c = CHR '' '' \<or> c = CHR ''-'' \<or> c = CHR 0x27)"

definition spec_rules :: "externals \<Rightarrow> string \<Rightarrow> (string \<times> (jsval \<Rightarrow> bool)) list" where
  "spec_rules x f =
     (if f = ''First-Name'' then
        [(''First name must be between 2 and 50 characters'',
            \<lambda>v. 2 \<le> length (trim (toString v)) \<and> length (trim (toString v)) \<le> 50),
         (''First name contains invalid characters'',
            \<lambda>v. list_all spec_name_char (trim (toString v)))]
      else if f = ''Last-Name'' then
        [(''Last name must be between 2 and 50 characters'',
            \<lambda>v. 2 \<le> length (trim (toString v)) \<and> length (trim (toString v)) \<le> 50),
         (''Last name contains invalid characters'',
            \<lambda>v. list_all spec_name_char (trim (toString v)))]
      else if f = ''email'' then
        [(''Please provide a valid email address'', \<lambda>v. isEmail x (trim (toString v)))]
      else if f = ''field'' then
        [(''Please select your job title'', \<lambda>v. trim (toString v) \<noteq> [])]
      else if f = ''name-2'' then
        [(''Healthcare institution name must be between 2 and 100 characters'',
            \<lambda>v. 2 \<le> length (trim (toString v)) \<and> length (trim (toString v)) \<le> 100)]
      else if f = ''field-2'' then
        [(''Message must not exceed 1000 characters'',
            \<lambda>v. v = JUndefined \<or> length (trim (toString v)) \<le> 1000)]
      else if f = ''checkbox'' then
        [(''You must agree to be contacted by the Jaide team'', \<lambda>v. toString v = ''on'')]
      else if f = ''g-recaptcha-response'' then
        [(''Please complete the reCAPTCHA verification'', \<lambda>v. toString v \<noteq> [])]
      else [])"



section \<open>An example run\<close>

text \<open>
  The submission of the spec's end-to-end example (its email without the trailing blank),
  a configuration for SMTP, and externals under which every call succeeds: the token
  \<^verbatim>\<open>tok123\<close> is verified, the address of the example counts as valid and is normalized by
  lowercasing, as validator.js does for a domain it has no special rule for.
\<close>

definition ascii_lower :: "char \<Rightarrow> char" where
  "ascii_lower c =
     (case map_of (zip ''ABCDEFGHIJKLMNOPQRSTUVWXYZ'' ''abcdefghijklmnopqrstuvwxyz'') c of
        None \<Rightarrow> c
      | Some l \<Rightarrow> l)"

definition example_body :: body where
  "example_body =
     (\<lambda>f. JUndefined)
       (''First-Name'' := JStr ''Ana'',
        ''Last-Name'' := JStr ''Lopez'',
        ''email'' := JStr ''ANA@Example.com'',
        ''field'' := JStr ''Nurse'',
        ''name-2'' := JStr ''City Hospital'',
        ''checkbox'' := JStr ''on'',
        ''g-recaptcha-response'' := JStr ''tok123'')"

definition example_env :: env where
  "example_env =
     map_of
       [(''RECAPTCHA_SECRET_KEY'', ''6Lsecret''),
        (''EMAIL_SERVICE'', ''smtp''),
        (''SMTP_HOST'', ''smtp.example.org''),
        (''SMTP_USER'', ''mailer''),
        (''SMTP_PASSWORD'', ''pw''),
        (''EMAIL_FROM'', ''noreply@jaide.care''),
        (''EMAIL_TO'', ''contact@jaide.care'')]"

definition example_externals :: externals where
  "example_externals =
     \<lparr> isEmail = (\<lambda>s. s = ''ANA@Example.com'' \<or> s = ''ana@example.com''),
       normalizeEmail = (\<lambda>s. JStr (map ascii_lower s)),
       axios_post =
         (\<lambda>secret token.
            if token = JStr ''tok123'' then Resolved (DataObject (JBool True) None)
            else Resolved (DataObject (JBool False) (Some [''invalid-input-response'']))),
       transporter_verify = (\<lambda>t. True),
       transporter_sendMail = (\<lambda>t m. True),
       resend_send = (\<lambda>c m. True),
       toLocaleString = ''11/2/2026, 9:00:00 AM'' \<rparr>"

definition example_request :: "nat \<Rightarrow> request" where
  "example_request t =
     \<lparr> req_time = t, req_ip = ''203.0.113.7'', req_payload = Parsed example_body \<rparr>"

section \<open>Properties of the validation chains\<close>


lemma run_chain_other: "g \<noteq> fst c \<Longrightarrow> fst (run_chain x c b) g = b g"
  by (simp add: run_chain_def split: prod.splits)

lemma run_chain_own: "fst (run_chain x c b) (fst c) = fst (run_steps x (fst c) (snd c) (b (fst c)))"
  by (simp add: run_chain_def split: prod.splits)

lemma run_chain_errors: "snd (run_chain x c b) = snd (run_steps x (fst c) (snd c) (b (fst c)))"
  by (simp add: run_chain_def split: prod.splits)

lemma run_chains_errors:
  "distinct (map fst cs) \<Longrightarrow>
   snd (run_chains x cs b) = concat (map (\<lambda>c. snd (run_steps x (fst c) (snd c) (b (fst c)))) cs)"
proof (induction cs arbitrary: b)
  case Nil
  then show ?case by simp
next
  case (Cons c cs)
  let ?b1 = "fst (run_chain x c b)"
  from Cons.prems have d: "distinct (map fst cs)" and n: "fst c \<notin> fst ` set cs" by simp_all
  have same: "\<And>c'. c' \<in> set cs \<Longrightarrow> ?b1 (fst c') = b (fst c')"
  proof -
    fix c' assume "c' \<in> set cs"
    then have "fst c' \<noteq> fst c" using n by (metis image_eqI)
    then show "?b1 (fst c') = b (fst c')" by (rule run_chain_other)
  qed
  have "snd (run_chains x (c # cs) b) = snd (run_chain x c b) @ snd (run_chains x cs ?b1)"
    by (simp add: split_beta Let_def)
  also have "snd (run_chains x cs ?b1) =
      concat (map (\<lambda>c. snd (run_steps x (fst c) (snd c) (?b1 (fst c)))) cs)"
    by (rule Cons.IH [OF d])
  also have "\<dots> = concat (map (\<lambda>c. snd (run_steps x (fst c) (snd c) (b (fst c)))) cs)"
    using same by (simp cong: map_cong)
  finally show ?case by (simp add: run_chain_errors)
qed

lemma run_chains_body:
  "distinct (map fst cs) \<Longrightarrow>
   fst (run_chains x cs b) f =
     (case map_of cs f of None \<Rightarrow> b f | Some ss \<Rightarrow> fst (run_steps x f ss (b f)))"
proof (induction cs arbitrary: b)
  case Nil
  then show ?case by simp
next
  case (Cons c cs)
  obtain g ss where c: "c = (g, ss)" by (cases c)
  let ?b1 = "fst (run_chain x c b)"
  from Cons.prems have d: "distinct (map fst cs)" and n: "g \<notin> fst ` set cs"
    by (simp_all add: c)
  have step: "fst (run_chains x (c # cs) b) f = fst (run_chains x cs ?b1) f"
    by (simp add: split_beta Let_def)
  note ih = Cons.IH [OF d, of ?b1]
  show ?case
  proof (cases "f = g")
    case True
    have none: "map_of cs g = None" using n by (simp add: map_of_eq_None_iff)
    have "?b1 g = fst (run_steps x g ss (b g))"
      using run_chain_own [of x c b] by (simp add: c)
    then show ?thesis using True step ih none by (simp add: c)
  next
    case False
    then have "?b1 f = b f" by (simp add: run_chain_other c)
    then show ?thesis using False step ih by (simp add: c split: option.splits)
  qed
qed

lemma distinct_fields: "distinct (map fst contactFormValidation)"
  by (simp add: contactFormValidation_def)

lemma validation_errors_iff:
  "en \<in> set (snd (run_chains x contactFormValidation b)) \<longleftrightarrow>
     (\<exists>c \<in> set contactFormValidation. en \<in> set (snd (run_steps x (fst c) (snd c) (b (fst c)))))"
  by (simp add: run_chains_errors [OF distinct_fields])

lemma chain_rules:
  assumes "c \<in> set contactFormValidation"
  shows "FieldError f m \<in> set (snd (run_steps x (fst c) (snd c) v)) \<longleftrightarrow>
     f = fst c \<and> (\<exists>r. (m, r) \<in> set (chain_checks x (fst c)) \<and> \<not> r v)"
proof -
  have c: "c = contactFormValidation ! 0 \<or> c = contactFormValidation ! 1
      \<or> c = contactFormValidation ! 2 \<or> c = contactFormValidation ! 3
      \<or> c = contactFormValidation ! 4 \<or> c = contactFormValidation ! 5
      \<or> c = contactFormValidation ! 6 \<or> c = contactFormValidation ! 7"
    using assms by (simp add: contactFormValidation_def)
  have 0: ?thesis if "c = contactFormValidation ! 0"
    unfolding that by (auto simp add: contactFormValidation_def chain_checks_def isLength_def)
  have 1: ?thesis if "c = contactFormValidation ! 1"
    unfolding that by (auto simp add: contactFormValidation_def chain_checks_def isLength_def)
  have 2: ?thesis if "c = contactFormValidation ! 2"
    unfolding that by (auto simp add: contactFormValidation_def chain_checks_def)
  have 3: ?thesis if "c = contactFormValidation ! 3"
    unfolding that by (auto simp add: contactFormValidation_def chain_checks_def)
  have 4: ?thesis if "c = contactFormValidation ! 4"
    unfolding that by (auto simp add: contactFormValidation_def chain_checks_def isLength_def)
  have 5: ?thesis if "c = contactFormValidation ! 5"
    unfolding that by (auto simp add: contactFormValidation_def chain_checks_def isLength_def)
  have 6: ?thesis if "c = contactFormValidation ! 6"
    unfolding that by (auto simp add: contactFormValidation_def chain_checks_def)
  have 7: ?thesis if "c = contactFormValidation ! 7"
    unfolding that by (auto simp add: contactFormValidation_def chain_checks_def)
  from c 0 1 2 3 4 5 6 7 show ?thesis by blast
qed

lemma ruled_fields: "chain_checks x f \<noteq> [] \<Longrightarrow> f \<in> fst ` set contactFormValidation"
  by (simp add: chain_checks_def contactFormValidation_def split: if_splits)

lemma validation_errors_rules:
  "FieldError f m \<in> set (snd (run_chains x contactFormValidation b0)) \<longleftrightarrow>
     (\<exists>r. (m, r) \<in> set (chain_checks x f) \<and> \<not> r (b0 f))"
proof
  assume "FieldError f m \<in> set (snd (run_chains x contactFormValidation b0))"
  then obtain c where c: "c \<in> set contactFormValidation"
      and "FieldError f m \<in> set (snd (run_steps x (fst c) (snd c) (b0 (fst c))))"
    by (auto simp: validation_errors_iff)
  then show "\<exists>r. (m, r) \<in> set (chain_checks x f) \<and> \<not> r (b0 f)"
    using chain_rules [OF c, of f m x "b0 (fst c)"] by auto
next
  assume "\<exists>r. (m, r) \<in> set (chain_checks x f) \<and> \<not> r (b0 f)"
  then obtain r where r: "(m, r) \<in> set (chain_checks x f)" "\<not> r (b0 f)" by blast
  then have "chain_checks x f \<noteq> []" by auto
  then obtain c where c: "c \<in> set contactFormValidation" and f: "f = fst c"
    using ruled_fields by blast
  have "FieldError f m \<in> set (snd (run_steps x (fst c) (snd c) (b0 (fst c))))"
    using chain_rules [OF c, of f m x "b0 (fst c)"] r f by auto
  then show "FieldError f m \<in> set (snd (run_chains x contactFormValidation b0))"
    using c by (auto simp: validation_errors_iff)
qed


lemma email_checked_as_submitted:
  "FieldError ''email'' ''Please provide a valid email address''
     \<in> set (snd (run_chains x contactFormValidation b0)) \<longleftrightarrow>
   \<not> isEmail x (toString (b0 ''email''))"
  by (auto simp: validation_errors_rules chain_checks_def)

lemma validated_token:
  "fst (run_chains x contactFormValidation b0) ''g-recaptcha-response'' = b0 ''g-recaptcha-response''"
  by (simp add: run_chains_body [OF distinct_fields]) (simp add: contactFormValidation_def)

lemma validated_email:
  "fst (run_chains x contactFormValidation b0) ''email'' = normalizeEmail x (toString (b0 ''email''))"
  by (simp add: run_chains_body [OF distinct_fields]) (simp add: contactFormValidation_def)

lemma validated_field:
  "fst (run_chains x contactFormValidation b0) ''field'' = b0 ''field''"
  by (simp add: run_chains_body [OF distinct_fields]) (simp add: contactFormValidation_def)

lemma validated_message:
  "message_of (fst (run_chains x contactFormValidation b0)) =
     JStr (if b0 ''field-2'' = JUndefined then [] else trim (toString (b0 ''field-2'')))"
  by (simp add: message_of_def run_chains_body [OF distinct_fields])
     (simp add: contactFormValidation_def)

section \<open>The checks of the chains against the rules of the spec\<close>




lemma spec_rule_checked:
  assumes "(m, r) \<in> set (spec_rules x f)"
      and "m \<notin> {''First name contains invalid characters'',
                 ''Last name contains invalid characters'',
                 ''Please provide a valid email address'', ''Please select your job title''}"
  shows "(m, r) \<in> set (chain_checks x f)"
  using assms by (auto simp: spec_rules_def chain_checks_def split: if_splits)

section \<open>The handler, branch by branch\<close>

lemma submit_contact_invalid:
  "snd (run_chains x contactFormValidation b0) \<noteq> [] \<Longrightarrow>
   submit_contact x e resend b0 = (validation_failed (snd (run_chains x contactFormValidation b0)), [])"
  by (simp add: submit_contact_def split_beta)

lemma sends_append: "sends (xs @ ys) = sends xs @ sends ys"
  by (simp add: sends_def)

lemma sends_verifyRecaptcha: "sends (snd (verifyRecaptcha x e t)) = []"
  by (simp add: verifyRecaptcha_def verifyRecaptcha_try_def sends_def Let_def
      split: axios_result.splits)

lemma verifyRecaptcha_no_secret:
  "\<not> truthy (getenv e ''RECAPTCHA_SECRET_KEY'') \<Longrightarrow>
   verifyRecaptcha x e t =
     (request_failed, [Console (RecaptchaVerificationError SecretNotConfigured)])"
  by (simp add: verifyRecaptcha_def verifyRecaptcha_try_def)

lemma mailToTeam_validated:
  "mailToTeam x e (fst (run_chains x contactFormValidation b0)) =
     Inr \<lparr> mail_from = js_or (getenv e ''EMAIL_FROM'') (getenv e ''EMAIL_USER''),
           mail_to = js_or (getenv e ''EMAIL_TO'') (JStr ''contact@jaide.care''),
           mail_subject =
             ''New Contact Form Submission from ''
               @ interpolate (fst (run_chains x contactFormValidation b0) ''First-Name'')
               @ '' '' @ interpolate (fst (run_chains x contactFormValidation b0) ''Last-Name''),
           mail_html =
             team_html x (fst (run_chains x contactFormValidation b0))
               (if b0 ''field-2'' = JUndefined \<or> trim (toString (b0 ''field-2'')) = [] then []
                else message_section_open @ replace_newlines (trim (toString (b0 ''field-2'')))
                       @ message_section_close) \<rparr>"
  by (simp add: mailToTeam_def validated_message message_section_def)

lemma mail_to_user_validated:
  "mail_to (mailToUser e (fst (run_chains x contactFormValidation b0))) =
     normalizeEmail x (toString (b0 ''email''))"
  by (simp add: mailToUser_def validated_email)

lemma submit_contact_verified:
  assumes "snd (run_chains x contactFormValidation b0) = []"
      and "verifyRecaptcha x e (b0 ''g-recaptcha-response'') = (r, ev1)"
      and "success_property r = Inr ok" and "truthy ok"
      and "mailToTeam x e (fst (run_chains x contactFormValidation b0)) = Inr team"
      and "dispatch x e resend team (mailToUser e (fst (run_chains x contactFormValidation b0)))
             = (d, ev2)"
  shows "submit_contact x e resend b0 =
      (case d of
         Inl err \<Rightarrow> (server_error, ev1 @ ev2 @ [Console (ProcessingError err)])
       | Inr u \<Rightarrow>
           (thank_you,
            ev1 @ ev2 @
            [Console (ProcessedSuccessfully
               (interpolate (fst (run_chains x contactFormValidation b0) ''First-Name''))
               (interpolate (fst (run_chains x contactFormValidation b0) ''Last-Name''))
               (interpolate (fst (run_chains x contactFormValidation b0) ''email'')))]))"
  using assms by (simp add: submit_contact_def split_beta validated_token)

lemma dispatch_resend_missing:
  "e ''EMAIL_SERVICE'' = Some ''resend'' \<Longrightarrow>
   dispatch x e None team user = (Inl ResendNotConfigured, [])"
  by (simp add: dispatch_def)

lemma dispatch_sends_ready:
  assumes "if e ''EMAIL_SERVICE'' = Some ''resend'' then resend \<noteq> None
           else transporter_verify x (createTransporter e)"
  shows "map recipient (sends (snd (dispatch x e resend team user))) = [mail_to team, mail_to user]"
  using assms by (auto simp: dispatch_def sends_def Let_def split: if_splits)

lemma sends_dispatch_resend_missing:
  "e ''EMAIL_SERVICE'' = Some ''resend'' \<Longrightarrow>
   sends (snd (submit_contact x e None b0)) = []"
proof -
  assume rs: "e ''EMAIL_SERVICE'' = Some ''resend''"
  let ?b = "fst (run_chains x contactFormValidation b0)"
  obtain r ev1 where v: "verifyRecaptcha x e (?b ''g-recaptcha-response'') = (r, ev1)"
    by (cases "verifyRecaptcha x e (?b ''g-recaptcha-response'')")
  have s1: "sends ev1 = []"
    using sends_verifyRecaptcha [of x e "?b ''g-recaptcha-response''"] v by simp
  have d: "\<And>team. dispatch x e None team (mailToUser e ?b) = (Inl ResendNotConfigured, [])"
    using rs by (rule dispatch_resend_missing)
  show ?thesis
    using v s1
    by (simp add: submit_contact_def split_beta d sends_append split: sum.splits)
       (simp add: sends_def)
qed

lemma handler_never_too_many: "fst (submit_contact x e resend b) \<noteq> too_many"
  by (simp add: submit_contact_def too_many_def validation_failed_def server_error_def
      recaptcha_failed_def thank_you_def split_beta split: sum.splits)

section \<open>Facts of the example run\<close>

lemmas example_defs =
  example_body_def example_env_def example_externals_def ascii_lower_def
  contactFormValidation_def run_chain_def trim_def js_space_def isLength_def
  name_pattern_def name_char_def getenv_def

lemma example_valid:
  "snd (run_chains example_externals contactFormValidation
          (example_body(''g-recaptcha-response'' := t))) = [] \<longleftrightarrow> toString t \<noteq> []"
  by (simp add: example_defs)

lemma example_token: "example_body ''g-recaptcha-response'' = JStr ''tok123''"
  by (simp add: example_body_def)

lemma example_email: "example_body ''email'' = JStr ''ANA@Example.com''"
  by (simp add: example_body_def)

lemma example_valid_body: "snd (run_chains example_externals contactFormValidation example_body) = []"
  using example_valid [of "JStr ''tok123''"] example_token
  by (metis fun_upd_triv list.distinct(1) toString.simps(4))

lemma example_normalize:
  "normalizeEmail example_externals ''ANA@Example.com'' = JStr ''ana@example.com''"
  by (simp add: example_externals_def ascii_lower_def)

lemma example_verify_ok:
  "e ''RECAPTCHA_SECRET_KEY'' = Some ''6Lsecret'' \<Longrightarrow>
   verifyRecaptcha example_externals e (JStr ''tok123'') =
     (DataObject (JBool True) None, [AxiosPost (JStr ''6Lsecret'') (JStr ''tok123'')])"
  by (simp add: verifyRecaptcha_def verifyRecaptcha_try_def example_externals_def getenv_def)

lemma example_verify_expired:
  "verifyRecaptcha example_externals example_env (JStr ''expired'') =
     (DataObject (JBool False) (Some [''invalid-input-response'']),
      [AxiosPost (JStr ''6Lsecret'') (JStr ''expired'')])"
  by (simp add: verifyRecaptcha_def verifyRecaptcha_try_def example_env_def
      example_externals_def getenv_def)


lemma example_normalized:
  "fst (run_chains example_externals contactFormValidation (example_body(''field-2'' := v)))
     ''First-Name'' = JStr ''Ana''"
  "fst (run_chains example_externals contactFormValidation (example_body(''field-2'' := v)))
     ''Last-Name'' = JStr ''Lopez''"
  "fst (run_chains example_externals contactFormValidation (example_body(''field-2'' := v)))
     ''email'' = JStr ''ana@example.com''"
  "fst (run_chains example_externals contactFormValidation (example_body(''field-2'' := v)))
     ''field'' = JStr ''Nurse''"
  "fst (run_chains example_externals contactFormValidation (example_body(''field-2'' := v)))
     ''name-2'' = JStr ''City Hospital''"
  by (simp_all add: run_chains_body [OF distinct_fields])
     (simp_all add: example_defs)



section \<open>Verification\<close>

text \<open>
  C1. When the verification of the submitted token is a failure (the result's
  \<^verbatim>\<open>success\<close> is not truthy, whether the service said so or the call itself failed), no
  email-send operation is attempted for the request, whatever the configuration; and
  when the submission had passed validation, the handler answers with the 400 of a failed
  verification right after the verification and its log line, before any message is
  composed or dispatched.
\<close>

theorem failed_verification_sends_nothing:
  assumes "verifyRecaptcha x e (b0 ''g-recaptcha-response'') = (r, evs)"
      and "success_property r = Inr ok" and "\<not> truthy ok"
  shows "sends (snd (submit_contact x e resend b0)) = []
       \<and> (snd (run_chains x contactFormValidation b0) = [] \<longrightarrow>
            submit_contact x e resend b0 =
              (recaptcha_failed,
               evs @ [Console (RecaptchaVerificationFailed (error_codes_property r))]))"
proof (cases "snd (run_chains x contactFormValidation b0) = []")
  case False
  then show ?thesis by (simp add: submit_contact_invalid sends_def)
next
  case True
  have run: "submit_contact x e resend b0 =
      (recaptcha_failed, evs @ [Console (RecaptchaVerificationFailed (error_codes_property r))])"
    using True assms by (simp add: submit_contact_def split_beta validated_token)
  have "sends evs = []"
    using sends_verifyRecaptcha [of x e "b0 ''g-recaptcha-response''"] assms(1) by simp
  then show ?thesis using run True by (simp add: sends_append) (simp add: sends_def)
qed

theorem failed_verification_sends_nothing_witness:
  "verifyRecaptcha example_externals example_env (JStr ''expired'') =
     (DataObject (JBool False) (Some [''invalid-input-response'']),
      [AxiosPost (JStr ''6Lsecret'') (JStr ''expired'')])
   \<and> sends (snd (submit_contact example_externals example_env None
         (example_body(''g-recaptcha-response'' := JStr ''expired'')))) = []
   \<and> submit_contact example_externals example_env None
         (example_body(''g-recaptcha-response'' := JStr ''expired'')) =
       (recaptcha_failed,
        [AxiosPost (JStr ''6Lsecret'') (JStr ''expired''),
         Console (RecaptchaVerificationFailed (Some [''invalid-input-response'']))])"
  using failed_verification_sends_nothing
          [of example_externals example_env
              "example_body(''g-recaptcha-response'' := JStr ''expired'')"
              "DataObject (JBool False) (Some [''invalid-input-response''])"
              "[AxiosPost (JStr ''6Lsecret'') (JStr ''expired'')]" "JBool False" None]
        example_verify_expired example_valid [of "JStr ''expired''"]
  by (simp add: sends_def)

text \<open>
  C3, as amended. For a submission that passes validation, a verification secret that is
  not configured is reported to the caller as a failed verification: HTTP 400 with the
  message of a failed reCAPTCHA check, not the generic 500. No call to the verification
  service and no send is made; the detail goes to the server's log only.
\<close>

theorem missing_secret_is_failed_verification:
  assumes "snd (run_chains x contactFormValidation b0) = []"
      and "\<not> truthy (getenv e ''RECAPTCHA_SECRET_KEY'')"
  shows "submit_contact x e resend b0 =
           (Json 400 False ''reCAPTCHA verification failed. Please try again.''
              (Some [PlainError ''reCAPTCHA verification failed'']),
            [Console (RecaptchaVerificationError SecretNotConfigured),
             Console (RecaptchaVerificationFailed (Some [''request-failed'']))])"
  using assms
  by (simp add: submit_contact_def split_beta verifyRecaptcha_no_secret request_failed_def
      recaptcha_failed_def)

theorem missing_secret_is_failed_verification_witness:
  "snd (run_chains example_externals contactFormValidation example_body) = []
   \<and> \<not> truthy (getenv (example_env(''RECAPTCHA_SECRET_KEY'' := None)) ''RECAPTCHA_SECRET_KEY'')
   \<and> submit_contact example_externals (example_env(''RECAPTCHA_SECRET_KEY'' := None)) None
         example_body =
       (Json 400 False ''reCAPTCHA verification failed. Please try again.''
          (Some [PlainError ''reCAPTCHA verification failed'']),
        [Console (RecaptchaVerificationError SecretNotConfigured),
         Console (RecaptchaVerificationFailed (Some [''request-failed'']))])"
  using missing_secret_is_failed_verification
          [of example_externals example_body "example_env(''RECAPTCHA_SECRET_KEY'' := None)" None]
        example_valid_body
  by (simp add: getenv_def)

text \<open>
  The claim as first stated fails: without the secret, the valid example submission is
  answered with status 400, and the answer is not the generic server error.
\<close>

theorem missing_secret_not_server_error:
  "snd (run_chains example_externals contactFormValidation example_body) = []
   \<and> (example_env(''RECAPTCHA_SECRET_KEY'' := None)) ''RECAPTCHA_SECRET_KEY'' = None
   \<and> status (fst (submit_contact example_externals
         (example_env(''RECAPTCHA_SECRET_KEY'' := None)) None example_body)) = 400
   \<and> fst (submit_contact example_externals
         (example_env(''RECAPTCHA_SECRET_KEY'' := None)) None example_body) \<noteq> server_error"
proof -
  let ?e = "example_env(''RECAPTCHA_SECRET_KEY'' := None)"
  have "verifyRecaptcha example_externals ?e (JStr ''tok123'') =
      (request_failed, [Console (RecaptchaVerificationError SecretNotConfigured)])"
    by (simp add: verifyRecaptcha_def verifyRecaptcha_try_def getenv_def)
  then have "fst (submit_contact example_externals ?e None example_body) = recaptcha_failed"
    using example_valid_body
    by (simp add: submit_contact_def split_beta validated_token example_token request_failed_def)
  then show ?thesis using example_valid_body
    by (simp add: recaptcha_failed_def server_error_def)
qed

text \<open>
  C5, as amended. \<^verbatim>\<open>verifyRecaptcha\<close> never passes an error on to its caller: every error
  thrown in its \<^verbatim>\<open>try\<close> block becomes the failure with the single code
  \<^verbatim>\<open>request-failed\<close>, which is what happens when the secret is missing and when the HTTP
  call is rejected (a network error, a status outside 2xx). Whenever the HTTP call
  resolves, the response body is returned exactly as received, with no check of its shape.
\<close>

theorem verifyRecaptcha_outcomes:
  "(\<forall>err. fst (verifyRecaptcha_try x e t) = Inl err \<longrightarrow>
        fst (verifyRecaptcha x e t) = DataObject (JBool False) (Some [''request-failed'']))
   \<and> (\<not> truthy (getenv e ''RECAPTCHA_SECRET_KEY'') \<longrightarrow>
        verifyRecaptcha x e t =
          (DataObject (JBool False) (Some [''request-failed'']),
           [Console (RecaptchaVerificationError SecretNotConfigured)]))
   \<and> (truthy (getenv e ''RECAPTCHA_SECRET_KEY'')
        \<and> axios_post x (getenv e ''RECAPTCHA_SECRET_KEY'') t = Rejected \<longrightarrow>
        verifyRecaptcha x e t =
          (DataObject (JBool False) (Some [''request-failed'']),
           [AxiosPost (getenv e ''RECAPTCHA_SECRET_KEY'') t,
            Console (RecaptchaVerificationError RequestRejected)]))
   \<and> (\<forall>d. truthy (getenv e ''RECAPTCHA_SECRET_KEY'')
        \<and> axios_post x (getenv e ''RECAPTCHA_SECRET_KEY'') t = Resolved d \<longrightarrow>
        verifyRecaptcha x e t = (d, [AxiosPost (getenv e ''RECAPTCHA_SECRET_KEY'') t]))"
  by (simp add: verifyRecaptcha_def verifyRecaptcha_try_def request_failed_def Let_def
      split: axios_result.splits prod.splits sum.splits)

theorem verifyRecaptcha_outcomes_witness:
  "verifyRecaptcha example_externals (example_env(''RECAPTCHA_SECRET_KEY'' := None))
       (JStr ''tok123'') =
     (DataObject (JBool False) (Some [''request-failed'']),
      [Console (RecaptchaVerificationError SecretNotConfigured)])
   \<and> verifyRecaptcha (example_externals\<lparr>axios_post := \<lambda>secret token. Rejected\<rparr>) example_env
       (JStr ''tok123'') =
     (DataObject (JBool False) (Some [''request-failed'']),
      [AxiosPost (JStr ''6Lsecret'') (JStr ''tok123''),
       Console (RecaptchaVerificationError RequestRejected)])
   \<and> verifyRecaptcha example_externals example_env (JStr ''tok123'') =
     (DataObject (JBool True) None, [AxiosPost (JStr ''6Lsecret'') (JStr ''tok123'')])"
proof -
  have env: "getenv example_env ''RECAPTCHA_SECRET_KEY'' = JStr ''6Lsecret''"
      "getenv (example_env(''RECAPTCHA_SECRET_KEY'' := None)) ''RECAPTCHA_SECRET_KEY'' = JUndefined"
    by (simp_all add: getenv_def example_env_def)
  have ok: "axios_post example_externals (JStr ''6Lsecret'') (JStr ''tok123'') =
      Resolved (DataObject (JBool True) None)"
    by (simp add: example_externals_def)
  have a: "verifyRecaptcha example_externals (example_env(''RECAPTCHA_SECRET_KEY'' := None))
       (JStr ''tok123'') =
     (DataObject (JBool False) (Some [''request-failed'']),
      [Console (RecaptchaVerificationError SecretNotConfigured)])"
    using verifyRecaptcha_outcomes
      [of example_externals "example_env(''RECAPTCHA_SECRET_KEY'' := None)" "JStr ''tok123''"]
    by (simp only: env truthy.simps not_False_eq_True simp_thms)
  have b: "verifyRecaptcha (example_externals\<lparr>axios_post := \<lambda>secret token. Rejected\<rparr>) example_env
       (JStr ''tok123'') =
     (DataObject (JBool False) (Some [''request-failed'']),
      [AxiosPost (JStr ''6Lsecret'') (JStr ''tok123''),
       Console (RecaptchaVerificationError RequestRejected)])"
    using verifyRecaptcha_outcomes
      [of "example_externals\<lparr>axios_post := \<lambda>secret token. Rejected\<rparr>" example_env "JStr ''tok123''"]
    by (simp add: env)
  have c: "verifyRecaptcha example_externals example_env (JStr ''tok123'') =
     (DataObject (JBool True) None, [AxiosPost (JStr ''6Lsecret'') (JStr ''tok123'')])"
    using verifyRecaptcha_outcomes [of example_externals example_env "JStr ''tok123''"] ok
    by (simp add: env)
  from a b c show ?thesis by blast
qed

text \<open>
  The claim as first stated fails: when the HTTP call resolves with a body that is no
  verification answer at all (here a page of text, as a proxy in between may send), that
  body is what \<^verbatim>\<open>verifyRecaptcha\<close> returns, not the failure with \<^verbatim>\<open>request-failed\<close>.
\<close>

theorem malformed_response_passed_through:
  "fst (verifyRecaptcha
          (example_externals
             \<lparr>axios_post := \<lambda>secret token. Resolved (DataText ''<html>Bad Gateway</html>'')\<rparr>)
          example_env (JStr ''tok123'')) = DataText ''<html>Bad Gateway</html>''
   \<and> fst (verifyRecaptcha
          (example_externals
             \<lparr>axios_post := \<lambda>secret token. Resolved (DataText ''<html>Bad Gateway</html>'')\<rparr>)
          example_env (JStr ''tok123'')) \<noteq> DataObject (JBool False) (Some [''request-failed''])"
  by (simp add: verifyRecaptcha_def verifyRecaptcha_try_def getenv_def example_env_def)

section \<open>Delivery\<close>

text \<open>
  C2, as amended. For a submission that passes validation and whose verification is a
  success, and with a delivery backend that is ready (the backend is \<^verbatim>\<open>resend\<close> and the
  client was created at startup, or it is anything else and \<^verbatim>\<open>transporter.verify()\<close>
  succeeds), exactly two email-send operations are attempted: the first addressed to the
  operator address (\<^verbatim>\<open>EMAIL_TO\<close>, else \<^verbatim>\<open>contact@jaide.care\<close>), the second to what
  \<^verbatim>\<open>normalizeEmail\<close> made of the email exactly as submitted; the handler itself neither
  trims nor lowercases it.
\<close>

theorem two_sends_when_backend_ready:
  assumes valid: "snd (run_chains x contactFormValidation b0) = []"
      and ver: "success_property (fst (verifyRecaptcha x e (b0 ''g-recaptcha-response''))) = Inr ok"
      and ok: "truthy ok"
      and ready: "if e ''EMAIL_SERVICE'' = Some ''resend'' then resend \<noteq> None
                  else transporter_verify x (createTransporter e)"
  shows "map recipient (sends (snd (submit_contact x e resend b0))) =
           [js_or (getenv e ''EMAIL_TO'') (JStr ''contact@jaide.care''),
            normalizeEmail x (toString (b0 ''email''))]"
proof -
  let ?b = "fst (run_chains x contactFormValidation b0)"
  obtain r ev1 where v: "verifyRecaptcha x e (b0 ''g-recaptcha-response'') = (r, ev1)"
    by (cases "verifyRecaptcha x e (b0 ''g-recaptcha-response'')")
  obtain team where t: "mailToTeam x e ?b = Inr team"
      and to: "mail_to team = js_or (getenv e ''EMAIL_TO'') (JStr ''contact@jaide.care'')"
    by (simp add: mailToTeam_validated)
  obtain d ev2 where d: "dispatch x e resend team (mailToUser e ?b) = (d, ev2)"
    by (cases "dispatch x e resend team (mailToUser e ?b)")
  have s1: "sends ev1 = []" using sends_verifyRecaptcha [of x e "b0 ''g-recaptcha-response''"] v by simp
  have s2: "map recipient (sends ev2) = [mail_to team, mail_to (mailToUser e ?b)]"
    using dispatch_sends_ready [OF ready, of team "mailToUser e ?b"] d by simp
  have "sends (snd (submit_contact x e resend b0)) = sends ev2"
    using submit_contact_verified [OF valid v _ ok t d] ver v s1
    by (cases d) (simp_all add: sends_append, simp_all add: sends_def)
  then show ?thesis using s2 to by (simp add: mail_to_user_validated)
qed

theorem two_sends_when_backend_ready_witness:
  "snd (run_chains example_externals contactFormValidation example_body) = []
   \<and> success_property (fst (verifyRecaptcha example_externals example_env
         (example_body ''g-recaptcha-response''))) = Inr (JBool True)
   \<and> example_env ''EMAIL_SERVICE'' \<noteq> Some ''resend''
   \<and> transporter_verify example_externals (createTransporter example_env)
   \<and> map recipient (sends (snd (submit_contact example_externals example_env None example_body)))
       = [JStr ''contact@jaide.care'', JStr ''ana@example.com'']"
proof -
  have env: "example_env ''RECAPTCHA_SECRET_KEY'' = Some ''6Lsecret''"
      "example_env ''EMAIL_SERVICE'' = Some ''smtp''"
      "getenv example_env ''EMAIL_TO'' = JStr ''contact@jaide.care''"
    by (simp_all add: example_env_def getenv_def)
  have tv: "transporter_verify example_externals (createTransporter example_env)"
    by (simp add: example_externals_def)
  have ver: "success_property (fst (verifyRecaptcha example_externals example_env
         (example_body ''g-recaptcha-response''))) = Inr (JBool True)"
    by (simp add: example_token example_verify_ok env)
  have "map recipient (sends (snd (submit_contact example_externals example_env None example_body)))
       = [js_or (getenv example_env ''EMAIL_TO'') (JStr ''contact@jaide.care''),
          normalizeEmail example_externals (toString (example_body ''email''))]"
    using two_sends_when_backend_ready [OF example_valid_body ver, of None] tv env by simp
  then show ?thesis
    using example_valid_body ver tv env by (simp add: example_email example_normalize js_or_def)
qed

text \<open>
  The claim as first stated fails: with the backend \<^verbatim>\<open>resend\<close> and no API key at startup,
  the valid and verified example submission leads to no send at all.
\<close>

theorem resend_unconfigured_sends_nothing:
  "snd (run_chains example_externals contactFormValidation example_body) = []
   \<and> success_property (fst (verifyRecaptcha example_externals
         (example_env(''EMAIL_SERVICE'' \<mapsto> ''resend''))
         (example_body ''g-recaptcha-response''))) = Inr (JBool True)
   \<and> init_resend (example_env(''EMAIL_SERVICE'' \<mapsto> ''resend'')) = None
   \<and> sends (snd (submit_contact example_externals
         (example_env(''EMAIL_SERVICE'' \<mapsto> ''resend''))
         (init_resend (example_env(''EMAIL_SERVICE'' \<mapsto> ''resend''))) example_body)) = []"
proof -
  let ?e = "example_env(''EMAIL_SERVICE'' \<mapsto> ''resend'')"
  let ?b = "fst (run_chains example_externals contactFormValidation example_body)"
  have env: "?e ''RECAPTCHA_SECRET_KEY'' = Some ''6Lsecret''" "?e ''EMAIL_SERVICE'' = Some ''resend''"
    by (simp_all add: example_env_def)
  have nokey: "init_resend ?e = None"
    by (simp add: init_resend_def getenv_def example_env_def)
  have v: "verifyRecaptcha example_externals ?e (example_body ''g-recaptcha-response'') =
      (DataObject (JBool True) None, [AxiosPost (JStr ''6Lsecret'') (JStr ''tok123'')])"
    using example_verify_ok [of ?e] env(1) by (simp add: example_token)
  obtain team where t: "mailToTeam example_externals ?e ?b = Inr team"
    by (simp add: mailToTeam_validated)
  have d: "dispatch example_externals ?e None team (mailToUser ?e ?b) = (Inl ResendNotConfigured, [])"
    using dispatch_resend_missing [of ?e] env(2) by blast
  have "submit_contact example_externals ?e None example_body =
      (server_error, [AxiosPost (JStr ''6Lsecret'') (JStr ''tok123''),
                      Console (ProcessingError ResendNotConfigured)])"
    using submit_contact_verified [OF example_valid_body v _ _ t d]
    by simp
  then show ?thesis using example_valid_body v nokey by (simp add: sends_def)
qed

text \<open>
  The example of the spec is written with a blank after the address. The email chain hands
  the string to \<^verbatim>\<open>isEmail\<close> as submitted; validator.js accepts no address whose domain ends in
  a blank, and under externals that answer so the example is turned down by validation.
\<close>

lemma example_with_trailing_blank:
  "submit_contact example_externals example_env None
     (example_body(''email'' := JStr ''ANA@Example.com '')) =
   (Json 400 False ''Validation failed''
      (Some [FieldError ''email'' ''Please provide a valid email address'']), [])"
proof -
  have "snd (run_chains example_externals contactFormValidation
          (example_body(''email'' := JStr ''ANA@Example.com ''))) =
      [FieldError ''email'' ''Please provide a valid email address'']"
    by (simp add: example_defs)
  then show ?thesis
    using submit_contact_invalid
      [of example_externals "example_body(''email'' := JStr ''ANA@Example.com '')" example_env None]
    by (simp add: validation_failed_def)
qed

text \<open>
  C6. When the configured backend is \<^verbatim>\<open>resend\<close> and no Resend API key was provided at
  startup (so that no client was created), dispatch attempts no send and fails with the
  fault of a service that is not configured; no request leads to a send, and a request
  that reaches dispatch (valid, verified) is answered with the generic 500 body, the fault
  going to the log.
\<close>

theorem resend_without_key:
  assumes "e ''EMAIL_SERVICE'' = Some ''resend''"
      and "\<not> truthy (getenv e ''RESEND_API_KEY'')"
  shows "init_resend e = None
       \<and> dispatch x e (init_resend e) team user = (Inl ResendNotConfigured, [])
       \<and> sends (snd (submit_contact x e (init_resend e) b0)) = []
       \<and> (snd (run_chains x contactFormValidation b0) = []
            \<and> verifyRecaptcha x e (b0 ''g-recaptcha-response'') = (r, ev1)
            \<and> success_property r = Inr ok \<and> truthy ok \<longrightarrow>
          submit_contact x e (init_resend e) b0 =
            (Json 500 False
               ''Sorry, there was an error processing your request. Please try again later.''
               None,
             ev1 @ [Console (ProcessingError ResendNotConfigured)]))"
proof -
  let ?b = "fst (run_chains x contactFormValidation b0)"
  have none: "init_resend e = None"
    using assms(2) by (cases "getenv e ''RESEND_API_KEY''") (simp_all add: init_resend_def)
  have d: "\<And>team user. dispatch x e None team user = (Inl ResendNotConfigured, [])"
    using assms(1) by (rule dispatch_resend_missing)
  obtain tm where t: "mailToTeam x e ?b = Inr tm"
    by (simp add: mailToTeam_validated)
  have "submit_contact x e None b0 = (server_error, ev1 @ [Console (ProcessingError ResendNotConfigured)])"
    if "snd (run_chains x contactFormValidation b0) = []"
      and "verifyRecaptcha x e (b0 ''g-recaptcha-response'') = (r, ev1)"
      and "success_property r = Inr ok" and "truthy ok"
    using submit_contact_verified [OF that t d] by simp
  then show ?thesis
    using none d sends_dispatch_resend_missing [of e x b0] assms(1)
    by (simp add: server_error_def)
qed

theorem resend_without_key_witness:
  "(example_env(''EMAIL_SERVICE'' \<mapsto> ''resend'')) ''EMAIL_SERVICE'' = Some ''resend''
   \<and> getenv (example_env(''EMAIL_SERVICE'' \<mapsto> ''resend'')) ''RESEND_API_KEY'' = JUndefined
   \<and> snd (run_chains example_externals contactFormValidation example_body) = []
   \<and> verifyRecaptcha example_externals (example_env(''EMAIL_SERVICE'' \<mapsto> ''resend''))
         (example_body ''g-recaptcha-response'') =
       (DataObject (JBool True) None, [AxiosPost (JStr ''6Lsecret'') (JStr ''tok123'')])
   \<and> init_resend (example_env(''EMAIL_SERVICE'' \<mapsto> ''resend'')) = None
   \<and> submit_contact example_externals (example_env(''EMAIL_SERVICE'' \<mapsto> ''resend''))
         (init_resend (example_env(''EMAIL_SERVICE'' \<mapsto> ''resend''))) example_body =
       (Json 500 False
          ''Sorry, there was an error processing your request. Please try again later.'' None,
        [AxiosPost (JStr ''6Lsecret'') (JStr ''tok123''),
         Console (ProcessingError ResendNotConfigured)])"
proof -
  let ?e = "example_env(''EMAIL_SERVICE'' \<mapsto> ''resend'')"
  have env: "?e ''EMAIL_SERVICE'' = Some ''resend''"
      "getenv ?e ''RESEND_API_KEY'' = JUndefined"
      "?e ''RECAPTCHA_SECRET_KEY'' = Some ''6Lsecret''"
    by (simp_all add: example_env_def getenv_def)
  have v: "verifyRecaptcha example_externals ?e (example_body ''g-recaptcha-response'') =
      (DataObject (JBool True) None, [AxiosPost (JStr ''6Lsecret'') (JStr ''tok123'')])"
    using example_verify_ok [of ?e] env(3) by (simp add: example_token)
  have nt: "\<not> truthy (getenv ?e ''RESEND_API_KEY'')" by (simp add: env(2))
  show ?thesis
    using resend_without_key [where e = ?e and x = example_externals and ?b0.0 = example_body
        and r = "DataObject (JBool True) None"
        and ?ev1.0 = "[AxiosPost (JStr ''6Lsecret'') (JStr ''tok123'')]"
        and ok = "JBool True" and team = "mailToUser ?e example_body"
        and user = "mailToUser ?e example_body"]
      env(1,2) nt v example_valid_body
    by auto
qed

text \<open>
  C10. For every configuration whose backend identifier is neither \<^verbatim>\<open>resend\<close> nor
  \<^verbatim>\<open>gmail\<close> (unset and unrecognized values included), the transport is the generic SMTP
  one built from the \<^verbatim>\<open>SMTP_*\<close> settings (port 587 when none is set, secure only for the
  string \<^verbatim>\<open>true\<close>), and dispatch goes on to verify that transport and to send through it:
  the identifier is never the reason for a configuration fault.
\<close>

theorem unrecognized_backend_is_smtp:
  assumes "e ''EMAIL_SERVICE'' \<noteq> Some ''resend''" and "e ''EMAIL_SERVICE'' \<noteq> Some ''gmail''"
  shows "createTransporter e =
           SmtpTransport (getenv e ''SMTP_HOST'')
             (if truthy (getenv e ''SMTP_PORT'') then PortString (toString (getenv e ''SMTP_PORT''))
              else PortNumber 587)
             (e ''SMTP_SECURE'' = Some ''true'')
             (getenv e ''SMTP_USER'') (getenv e ''SMTP_PASSWORD'')
       \<and> dispatch x e resend team user =
           (if transporter_verify x (createTransporter e) then
              (if transporter_sendMail x (createTransporter e) team
                  \<and> transporter_sendMail x (createTransporter e) user
               then Inr () else Inl SendRejected,
               [TransporterVerify (createTransporter e),
                SendMail (createTransporter e) team, SendMail (createTransporter e) user])
            else (Inl VerifyRejected, [TransporterVerify (createTransporter e)]))
       \<and> fst (dispatch x e resend team user) \<noteq> Inl ResendNotConfigured"
  using assms by (simp add: createTransporter_def dispatch_def Let_def)

theorem unrecognized_backend_is_smtp_witness:
  "(example_env(''EMAIL_SERVICE'' \<mapsto> ''sendgrid'')) ''EMAIL_SERVICE'' \<noteq> Some ''resend''
   \<and> (example_env(''EMAIL_SERVICE'' \<mapsto> ''sendgrid'')) ''EMAIL_SERVICE'' \<noteq> Some ''gmail''
   \<and> createTransporter (example_env(''EMAIL_SERVICE'' \<mapsto> ''sendgrid'')) =
       SmtpTransport (JStr ''smtp.example.org'') (PortNumber 587) False
         (JStr ''mailer'') (JStr ''pw'')
   \<and> createTransporter (example_env(''EMAIL_SERVICE'' := None)) =
       SmtpTransport (JStr ''smtp.example.org'') (PortNumber 587) False
         (JStr ''mailer'') (JStr ''pw'')
   \<and> fst (dispatch example_externals (example_env(''EMAIL_SERVICE'' \<mapsto> ''sendgrid'')) None
         (mailToUser example_env example_body) (mailToUser example_env example_body)) = Inr ()"
proof -
  let ?e = "example_env(''EMAIL_SERVICE'' \<mapsto> ''sendgrid'')"
  let ?u = "example_env(''EMAIL_SERVICE'' := None)"
  have env: "?e ''EMAIL_SERVICE'' \<noteq> Some ''resend''" "?e ''EMAIL_SERVICE'' \<noteq> Some ''gmail''"
      "?u ''EMAIL_SERVICE'' \<noteq> Some ''resend''" "?u ''EMAIL_SERVICE'' \<noteq> Some ''gmail''"
    by simp_all
  have vals: "getenv ?e ''SMTP_HOST'' = JStr ''smtp.example.org''"
      "getenv ?e ''SMTP_PORT'' = JUndefined" "?e ''SMTP_SECURE'' = None"
      "getenv ?e ''SMTP_USER'' = JStr ''mailer''" "getenv ?e ''SMTP_PASSWORD'' = JStr ''pw''"
      "getenv ?u ''SMTP_HOST'' = JStr ''smtp.example.org''"
      "getenv ?u ''SMTP_PORT'' = JUndefined" "?u ''SMTP_SECURE'' = None"
      "getenv ?u ''SMTP_USER'' = JStr ''mailer''" "getenv ?u ''SMTP_PASSWORD'' = JStr ''pw''"
      "example_env ''SMTP_SECURE'' = None"
    by (simp_all add: getenv_def example_env_def)
  have a: "createTransporter ?e =
      SmtpTransport (JStr ''smtp.example.org'') (PortNumber 587) False (JStr ''mailer'') (JStr ''pw'')"
    using unrecognized_backend_is_smtp [where e = ?e] env(1,2) by (simp add: vals)
  have b: "createTransporter ?u =
      SmtpTransport (JStr ''smtp.example.org'') (PortNumber 587) False (JStr ''mailer'') (JStr ''pw'')"
    using unrecognized_backend_is_smtp [where e = ?u] env(3,4) by (simp add: vals)
  have c: "fst (dispatch example_externals ?e None
         (mailToUser example_env example_body) (mailToUser example_env example_body)) = Inr ()"
    using unrecognized_backend_is_smtp [where e = ?e and x = example_externals and resend = None
        and team = "mailToUser example_env example_body"
        and user = "mailToUser example_env example_body"] env(1,2)
    by (simp add: example_externals_def)
  from a b c env show ?thesis by blast
qed

section \<open>Validation\<close>




text \<open>
  C4, as amended. The job title is checked as submitted, without trimming: a submission
  whose \<^verbatim>\<open>field\<close> is the empty string, or is missing, is rejected with the error
  \<^verbatim>\<open>Please select your job title\<close> for that field; any other value, one of blanks only
  included, produces no error for the field and is kept unchanged.
\<close>

theorem job_title_checked_untrimmed:
  "(toString (b0 ''field'') = [] \<longrightarrow>
      (\<exists>es. submit_contact x e resend b0 = (Json 400 False ''Validation failed'' (Some es), [])
            \<and> FieldError ''field'' ''Please select your job title'' \<in> set es))
   \<and> (toString (b0 ''field'') \<noteq> [] \<longrightarrow>
      (\<forall>m. FieldError ''field'' m \<notin> set (snd (run_chains x contactFormValidation b0))))
   \<and> fst (run_chains x contactFormValidation b0) ''field'' = b0 ''field''"
proof -
  let ?es = "snd (run_chains x contactFormValidation b0)"
  have iff: "FieldError ''field'' m \<in> set ?es \<longleftrightarrow>
      m = ''Please select your job title'' \<and> toString (b0 ''field'') = []" for m
    by (auto simp: validation_errors_rules chain_checks_def)
  have "\<exists>es. submit_contact x e resend b0 = (Json 400 False ''Validation failed'' (Some es), [])
            \<and> FieldError ''field'' ''Please select your job title'' \<in> set es"
    if "toString (b0 ''field'') = []"
  proof -
    have mem: "FieldError ''field'' ''Please select your job title'' \<in> set ?es"
      using that by (simp add: iff)
    then have "?es \<noteq> []" by auto
    then show ?thesis using submit_contact_invalid [of x b0 e resend] mem
      by (auto simp: validation_failed_def)
  qed
  then show ?thesis using iff by (simp add: validated_field)
qed

theorem job_title_checked_untrimmed_witness:
  "toString ((example_body(''field'' := JStr [])) ''field'') = []
   \<and> submit_contact example_externals example_env None (example_body(''field'' := JStr [])) =
       (Json 400 False ''Validation failed''
          (Some [FieldError ''field'' ''Please select your job title'']), [])
   \<and> toString (example_body ''field'') \<noteq> []
   \<and> FieldError ''field'' ''Please select your job title''
        \<notin> set (snd (run_chains example_externals contactFormValidation example_body))
   \<and> fst (run_chains example_externals contactFormValidation example_body) ''field'' = JStr ''Nurse''"
proof -
  have es: "snd (run_chains example_externals contactFormValidation
          (example_body(''field'' := JStr []))) =
     [FieldError ''field'' ''Please select your job title'']"
    by (simp add: example_defs)
  have a: "submit_contact example_externals example_env None (example_body(''field'' := JStr [])) =
       (Json 400 False ''Validation failed''
          (Some [FieldError ''field'' ''Please select your job title'']), [])"
    using job_title_checked_untrimmed
        [of "example_body(''field'' := JStr [])" example_externals example_env None]
      submit_contact_invalid [of example_externals "example_body(''field'' := JStr [])" example_env None]
    by (simp add: es validation_failed_def)
  have nurse: "example_body ''field'' = JStr ''Nurse''" by (simp add: example_body_def)
  have b: "FieldError ''field'' ''Please select your job title''
        \<notin> set (snd (run_chains example_externals contactFormValidation example_body))
      \<and> fst (run_chains example_externals contactFormValidation example_body) ''field'' = JStr ''Nurse''"
    using job_title_checked_untrimmed [of example_body example_externals example_env None]
    by (simp add: nurse)
  from a b nurse show ?thesis by simp
qed

text \<open>
  The claim as first stated fails: a job title of three blanks is empty after trimming,
  yet the example submission with it passes validation, and the handler goes on to send
  both messages and to answer 200.
\<close>

theorem blank_job_title_accepted:
  "trim (toString (JStr ''   '')) = []
   \<and> snd (run_chains example_externals contactFormValidation
            (example_body(''field'' := JStr ''   ''))) = []
   \<and> fst (run_chains example_externals contactFormValidation
            (example_body(''field'' := JStr ''   ''))) ''field'' = JStr ''   ''
   \<and> fst (submit_contact example_externals example_env None
            (example_body(''field'' := JStr ''   ''))) =
       Json 200 True ''Thank you for your submission. We will get in touch soon!'' None"
proof -
  let ?inp = "example_body(''field'' := JStr ''   '')"
  let ?b = "fst (run_chains example_externals contactFormValidation ?inp)"
  have t: "trim (toString (JStr ''   '')) = []" by (simp add: trim_def js_space_def)
  have valid: "snd (run_chains example_externals contactFormValidation ?inp) = []"
    by (simp add: example_defs)
  have kept: "?b ''field'' = JStr ''   ''" by (simp add: validated_field)
  have env: "example_env ''RECAPTCHA_SECRET_KEY'' = Some ''6Lsecret''"
    by (simp add: example_env_def)
  have v: "verifyRecaptcha example_externals example_env (?inp ''g-recaptcha-response'') =
      (DataObject (JBool True) None, [AxiosPost (JStr ''6Lsecret'') (JStr ''tok123'')])"
    using example_verify_ok [of example_env] env by (simp add: example_token)
  obtain team where tm: "mailToTeam example_externals example_env ?b = Inr team"
    by (simp add: mailToTeam_validated)
  obtain d ev2 where d: "dispatch example_externals example_env None team
      (mailToUser example_env ?b) = (d, ev2)" and ok: "d = Inr ()"
    by (simp add: dispatch_def example_env_def example_externals_def Let_def)
  have "fst (submit_contact example_externals example_env None ?inp) = thank_you"
    using submit_contact_verified [OF valid v _ _ tm d] ok by simp
  then show ?thesis using t valid kept by (simp add: thank_you_def)
qed

section \<open>Team notification\<close>

lemma replace_newlines_append:
  "replace_newlines (u @ v) = replace_newlines u @ replace_newlines v"
  by (simp add: replace_newlines_def)

lemma replace_newlines_Cons:
  "replace_newlines (c # v) = (if c = newline then ''<br>'' else [c]) @ replace_newlines v"
  by (simp add: replace_newlines_def)

lemma replace_newlines_id: "newline \<notin> set m \<Longrightarrow> replace_newlines m = m"
  by (induction m) (auto simp: replace_newlines_def)

lemma replace_newlines_no_newline: "newline \<notin> set (replace_newlines m)"
  by (induction m) (simp_all add: replace_newlines_def)

text \<open>
  C8. For a normalized submission (the body the chains leave when no rule is violated), the
  message is a string: the trimmed \<^verbatim>\<open>field-2\<close>, or the empty string when none was
  submitted. The HTML of the team notification is the contact block, then the Message
  section, then the footer. When the message is empty the section is absent altogether:
  the footer follows the contact block directly. Otherwise the section is the heading
  \<^verbatim>\<open>Message\<close> and a paragraph holding the message with its newlines replaced, where the
  replacement leaves a text without newlines as it is, turns each newline into \<^verbatim>\<open><br>\<close>
  and leaves no newline behind.
\<close>

theorem team_message_section:
  assumes \<open>run_chains x contactFormValidation b0 = (b, [])\<close>
  shows \<open>\<exists>message team.
           message_of b = JStr message
         \<and> message = (if b0 ''field-2'' = JUndefined then [] else trim (toString (b0 ''field-2'')))
         \<and> mailToTeam x e b = Inr team
         \<and> mail_html team =
              team_html_head @ interpolate (b ''First-Name'') @ '' ''
                @ interpolate (b ''Last-Name'')
                @ team_html_email_href @ interpolate (b ''email'')
                @ team_html_email_text @ interpolate (b ''email'')
                @ team_html_job_title @ interpolate (b ''field'')
                @ team_html_institution @ interpolate (b ''name-2'')
                @ team_html_contact_end
                @ (if message = [] then []
                   else (newline #
                       ''          <div style="background: #fff; padding: 20px; border-left: 4px solid #4CAF50; margin: 20px 0;">'' @ newline #
                       ''            <h3 style="margin-top: 0; color: #333;">Message</h3>'' @ newline #
                       ''            <p style="line-height: 1.6;">'')
                     @ replace_newlines message
                     @ (''</p>'' @ newline #
                       ''          </div>'' @ newline #
                       ''          ''))
                @ team_html_footer @ toLocaleString x @ team_html_end
         \<and> newline \<notin> set (replace_newlines message)
         \<and> (\<forall>s. newline \<notin> set s \<longrightarrow> replace_newlines s = s)
         \<and> (\<forall>u v. replace_newlines (u @ newline # v) =
                      replace_newlines u @ ''<br>'' @ replace_newlines v)\<close>
proof -
  let ?m = "if b0 ''field-2'' = JUndefined then [] else trim (toString (b0 ''field-2''))"
  have b: "b = fst (run_chains x contactFormValidation b0)" using assms by simp
  have msg: "message_of b = JStr ?m" unfolding b by (rule validated_message)
  let ?t = "\<lparr> mail_from = js_or (getenv e ''EMAIL_FROM'') (getenv e ''EMAIL_USER''),
            mail_to = js_or (getenv e ''EMAIL_TO'') (JStr ''contact@jaide.care''),
            mail_subject =
              ''New Contact Form Submission from '' @ interpolate (b ''First-Name'')
                @ '' '' @ interpolate (b ''Last-Name''),
            mail_html =
              team_html x b
                (if ?m = [] then []
                 else message_section_open @ replace_newlines ?m @ message_section_close) \<rparr>"
  have team: "mailToTeam x e b = Inr ?t"
    by (simp add: mailToTeam_def msg message_section_def)
  have split: "replace_newlines (u @ newline # v) = replace_newlines u @ ''<br>'' @ replace_newlines v"
    for u v
    by (simp add: replace_newlines_append replace_newlines_Cons)
  show ?thesis
    using msg team replace_newlines_no_newline [of ?m] replace_newlines_id split
    by (intro exI [of _ ?m] exI [of _ ?t])
       (simp add: team_html_def team_html_name_sep_def message_section_open_def
          message_section_close_def)
qed

theorem team_message_section_witness:
  \<open>snd (run_chains example_externals contactFormValidation
          (example_body(''field-2'' := JStr (''  Hello'' @ newline # ''there '')))) = []
   \<and> (\<exists>team. mailToTeam example_externals example_env
          (fst (run_chains example_externals contactFormValidation
             (example_body(''field-2'' := JStr (''  Hello'' @ newline # ''there ''))))) = Inr team
        \<and> mail_html team =
            newline #
             ''        <div style="font-family: Arial, sans-serif; max-width: 600px; margin: 0 auto;">'' @ newline #
             ''          <h2 style="color: #4CAF50;">New Contact Form Submission</h2>'' @ newline #
             ''          '' @ newline #
             ''          <div style="background: #f8f9fa; padding: 20px; border-radius: 8px; margin: 20px 0;">'' @ newline #
             ''            <h3 style="margin-top: 0; color: #333;">Contact Information</h3>'' @ newline #
             ''            <p><strong>Name:</strong> Ana Lopez</p>'' @ newline #
             ''            <p><strong>Email:</strong> <a href="mailto:ana@example.com">ana@example.com</a></p>'' @ newline #
             ''            <p><strong>Job Title:</strong> Nurse</p>'' @ newline #
             ''            <p><strong>Healthcare Institution:</strong> City Hospital</p>'' @ newline #
             ''          </div>'' @ newline #
             ''          '' @ newline #
             ''          '' @ newline #
             ''          <div style="background: #fff; padding: 20px; border-left: 4px solid #4CAF50; margin: 20px 0;">'' @ newline #
             ''            <h3 style="margin-top: 0; color: #333;">Message</h3>'' @ newline #
             ''            <p style="line-height: 1.6;">Hello<br>there</p>'' @ newline #
             ''          </div>'' @ newline #
             ''          '' @ newline #
             ''          '' @ newline #
             ''          <div style="margin-top: 30px; padding-top: 20px; border-top: 1px solid #eee; color: #666; font-size: 12px;">'' @ newline #
             ''            <p>This email was sent from the jaide.care contact form on 11/2/2026, 9:00:00 AM.</p>'' @ newline #
             ''          </div>'' @ newline #
             ''        </div>'' @ newline #
             ''      '')
   \<and> snd (run_chains example_externals contactFormValidation
          (example_body(''field-2'' := JUndefined))) = []
   \<and> (\<exists>team. mailToTeam example_externals example_env
          (fst (run_chains example_externals contactFormValidation
             (example_body(''field-2'' := JUndefined)))) = Inr team
        \<and> mail_html team =
            newline #
             ''        <div style="font-family: Arial, sans-serif; max-width: 600px; margin: 0 auto;">'' @ newline #
             ''          <h2 style="color: #4CAF50;">New Contact Form Submission</h2>'' @ newline #
             ''          '' @ newline #
             ''          <div style="background: #f8f9fa; padding: 20px; border-radius: 8px; margin: 20px 0;">'' @ newline #
             ''            <h3 style="margin-top: 0; color: #333;">Contact Information</h3>'' @ newline #
             ''            <p><strong>Name:</strong> Ana Lopez</p>'' @ newline #
             ''            <p><strong>Email:</strong> <a href="mailto:ana@example.com">ana@example.com</a></p>'' @ newline #
             ''            <p><strong>Job Title:</strong> Nurse</p>'' @ newline #
             ''            <p><strong>Healthcare Institution:</strong> City Hospital</p>'' @ newline #
             ''          </div>'' @ newline #
             ''          '' @ newline #
             ''          '' @ newline #
             ''          '' @ newline #
             ''          <div style="margin-top: 30px; padding-top: 20px; border-top: 1px solid #eee; color: #666; font-size: 12px;">'' @ newline #
             ''            <p>This email was sent from the jaide.care contact form on 11/2/2026, 9:00:00 AM.</p>'' @ newline #
             ''          </div>'' @ newline #
             ''        </div>'' @ newline #
             ''      '')\<close>
proof -
  let ?with = \<open>newline #
             ''        <div style="font-family: Arial, sans-serif; max-width: 600px; margin: 0 auto;">'' @ newline #
             ''          <h2 style="color: #4CAF50;">New Contact Form Submission</h2>'' @ newline #
             ''          '' @ newline #
             ''          <div style="background: #f8f9fa; padding: 20px; border-radius: 8px; margin: 20px 0;">'' @ newline #
             ''            <h3 style="margin-top: 0; color: #333;">Contact Information</h3>'' @ newline #
             ''            <p><strong>Name:</strong> Ana Lopez</p>'' @ newline #
             ''            <p><strong>Email:</strong> <a href="mailto:ana@example.com">ana@example.com</a></p>'' @ newline #
             ''            <p><strong>Job Title:</strong> Nurse</p>'' @ newline #
             ''            <p><strong>Healthcare Institution:</strong> City Hospital</p>'' @ newline #
             ''          </div>'' @ newline #
             ''          '' @ newline #
             ''          '' @ newline #
             ''          <div style="background: #fff; padding: 20px; border-left: 4px solid #4CAF50; margin: 20px 0;">'' @ newline #
             ''            <h3 style="margin-top: 0; color: #333;">Message</h3>'' @ newline #
             ''            <p style="line-height: 1.6;">Hello<br>there</p>'' @ newline #
             ''          </div>'' @ newline #
             ''          '' @ newline #
             ''          '' @ newline #
             ''          <div style="margin-top: 30px; padding-top: 20px; border-top: 1px solid #eee; color: #666; font-size: 12px;">'' @ newline #
             ''            <p>This email was sent from the jaide.care contact form on 11/2/2026, 9:00:00 AM.</p>'' @ newline #
             ''          </div>'' @ newline #
             ''        </div>'' @ newline #
             ''      ''\<close>
  let ?without = \<open>newline #
             ''        <div style="font-family: Arial, sans-serif; max-width: 600px; margin: 0 auto;">'' @ newline #
             ''          <h2 style="color: #4CAF50;">New Contact Form Submission</h2>'' @ newline #
             ''          '' @ newline #
             ''          <div style="background: #f8f9fa; padding: 20px; border-radius: 8px; margin: 20px 0;">'' @ newline #
             ''            <h3 style="margin-top: 0; color: #333;">Contact Information</h3>'' @ newline #
             ''            <p><strong>Name:</strong> Ana Lopez</p>'' @ newline #
             ''            <p><strong>Email:</strong> <a href="mailto:ana@example.com">ana@example.com</a></p>'' @ newline #
             ''            <p><strong>Job Title:</strong> Nurse</p>'' @ newline #
             ''            <p><strong>Healthcare Institution:</strong> City Hospital</p>'' @ newline #
             ''          </div>'' @ newline #
             ''          '' @ newline #
             ''          '' @ newline #
             ''          '' @ newline #
             ''          <div style="margin-top: 30px; padding-top: 20px; border-top: 1px solid #eee; color: #666; font-size: 12px;">'' @ newline #
             ''            <p>This email was sent from the jaide.care contact form on 11/2/2026, 9:00:00 AM.</p>'' @ newline #
             ''          </div>'' @ newline #
             ''        </div>'' @ newline #
             ''      ''\<close>
  let ?inp = "example_body(''field-2'' := JStr (''  Hello'' @ newline # ''there ''))"
  let ?non = "example_body(''field-2'' := JUndefined)"
  have valid: "snd (run_chains example_externals contactFormValidation ?inp) = []"
    by (simp add: example_defs)
  have valid': "snd (run_chains example_externals contactFormValidation ?non) = []"
    by (simp add: example_defs)
  have tr: "trim (''  Hello'' @ newline # ''there '') = ''Hello'' @ newline # ''there''"
    by (simp add: trim_def js_space_def)
  have br: "replace_newlines (''Hello'' @ newline # ''there'') = ''Hello<br>there''"
    by (simp add: replace_newlines_def)
  have date: "toLocaleString example_externals = ''11/2/2026, 9:00:00 AM''"
    by (simp add: example_externals_def)
  note pieces = team_html_head_def team_html_email_href_def team_html_email_text_def
    team_html_job_title_def team_html_institution_def team_html_contact_end_def
    team_html_footer_def team_html_end_def
  from team_message_section
        [where x = example_externals and ?b0.0 = ?inp and e = example_env
           and b = "fst (run_chains example_externals contactFormValidation ?inp)"]
      valid
  obtain team where "mailToTeam example_externals example_env
          (fst (run_chains example_externals contactFormValidation ?inp)) = Inr team"
    and "mail_html team =
            ?with"
    by (auto simp: prod_eq_iff tr [simplified] br [simplified] example_normalized date pieces)
  then have a: "\<exists>team. mailToTeam example_externals example_env
          (fst (run_chains example_externals contactFormValidation ?inp)) = Inr team
        \<and> mail_html team =
            ?with"
    by blast
  from team_message_section
        [where x = example_externals and ?b0.0 = ?non and e = example_env
           and b = "fst (run_chains example_externals contactFormValidation ?non)"]
      valid'
  obtain team where "mailToTeam example_externals example_env
          (fst (run_chains example_externals contactFormValidation ?non)) = Inr team"
    and "mail_html team =
            ?without"
    by (auto simp: prod_eq_iff example_normalized date pieces)
  then have b: "\<exists>team. mailToTeam example_externals example_env
          (fst (run_chains example_externals contactFormValidation ?non)) = Inr team
        \<and> mail_html team =
            ?without"
    by blast
  from valid a valid' b show ?thesis by blast
qed

section \<open>Rate limiting\<close>

lemma limiter_in_window:
  "cs ip = Some (h, r) \<Longrightarrow> now < r \<Longrightarrow>
   limiter cs now ip = (cs(ip \<mapsto> (h + 1, r)), h + 1 \<le> max_hits)"
  by (simp add: limiter_def)

lemma limiter_opens:
  "cs ip = None \<or> (\<exists>h r. cs ip = Some (h, r) \<and> r \<le> now) \<Longrightarrow>
   limiter cs now ip = (cs(ip \<mapsto> (1, now + windowMs)), True)"
  by (auto simp: limiter_def max_hits_def)

lemma limiter_other: "ip' \<noteq> ip \<Longrightarrow> fst (limiter cs now ip') ip = cs ip"
  by (simp add: limiter_def split_beta)

lemma post_unparseable:
  "req_payload rq = Unparseable \<Longrightarrow>
   post_submit_contact x e resend cs rq =
     (cs, Json 500 False ''Internal server error'' None, [Console UnhandledError])"
  by (simp add: post_submit_contact_def internal_server_error_def)

lemma post_other:
  "req_ip rq \<noteq> ip \<or> \<not> parsed (req_payload rq) \<Longrightarrow>
   fst (post_submit_contact x e resend cs rq) ip = cs ip"
  using limiter_other [of "req_ip rq" ip cs "req_time rq"]
  by (auto simp: post_submit_contact_def split_beta split: payload.splits)

lemma post_in_window:
  assumes "cs (req_ip rq) = Some (h, r)" and "req_time rq < r" and "req_payload rq = Parsed b"
  shows "post_submit_contact x e resend cs rq =
           (cs(req_ip rq \<mapsto> (h + 1, r)),
            if h + 1 \<le> max_hits then submit_contact x e resend b else (too_many, []))"
  using limiter_in_window [of cs "req_ip rq" h r "req_time rq"] assms
  by (simp add: post_submit_contact_def)

lemma post_opens:
  assumes "cs (req_ip rq) = None \<or> (\<exists>h r. cs (req_ip rq) = Some (h, r) \<and> r \<le> req_time rq)"
      and "req_payload rq = Parsed b"
  shows "post_submit_contact x e resend cs rq =
           (cs(req_ip rq \<mapsto> (1, req_time rq + windowMs)), submit_contact x e resend b)"
  using limiter_opens [of cs "req_ip rq" "req_time rq"] assms
  by (simp add: post_submit_contact_def)

lemma serve_append:
  "serve x e resend cs (rqs @ [rq]) =
     (fst (post_submit_contact x e resend (fst (serve x e resend cs rqs)) rq),
      snd (serve x e resend cs rqs)
        @ [snd (post_submit_contact x e resend (fst (serve x e resend cs rqs)) rq)])"
  by (induction rqs arbitrary: cs) (simp_all add: split_beta)

lemma let_through_Cons:
  "let_through ((q, out) # log) ip =
     (if req_ip q = ip \<and> parsed (req_payload q) \<and> fst out \<noteq> too_many then 1 else 0)
       + let_through log ip"
  by (simp add: let_through_def)

lemma serve_window:
  assumes "cs ip = Some (h, r)"
      and "\<forall>q \<in> set rqs. req_ip q = ip \<and> parsed (req_payload q) \<longrightarrow> req_time q < r"
  shows "fst (serve x e resend cs rqs) ip =
           Some (h + length (filter (\<lambda>q. req_ip q = ip \<and> parsed (req_payload q)) rqs), r)
       \<and> let_through (zip rqs (snd (serve x e resend cs rqs))) ip \<le> max_hits - h"
  using assms
proof (induction rqs arbitrary: cs h)
  case Nil
  then show ?case by (simp add: let_through_def)
next
  case (Cons rq rqs)
  obtain cs1 out where p: "post_submit_contact x e resend cs rq = (cs1, out)"
    by (cases "post_submit_contact x e resend cs rq")
  let ?rest = "serve x e resend cs1 rqs"
  have unfold: "serve x e resend cs (rq # rqs) = (fst ?rest, out # snd ?rest)"
    by (simp add: p split_beta)
  have rest: "\<forall>q \<in> set rqs. req_ip q = ip \<and> parsed (req_payload q) \<longrightarrow> req_time q < r"
    using Cons.prems(2) by simp
  show ?case
  proof (cases "req_ip rq = ip \<and> parsed (req_payload rq)")
    case False
    then have "cs1 ip = Some (h, r)"
      using Cons.prems(1) post_other [of rq ip x e resend cs] p by auto
    from Cons.IH [of cs1 h] this rest
    have "fst ?rest ip =
        Some (h + length (filter (\<lambda>q. req_ip q = ip \<and> parsed (req_payload q)) rqs), r)"
      and "let_through (zip rqs (snd ?rest)) ip \<le> max_hits - h"
      by simp_all
    then show ?thesis
      unfolding unfold using False by (auto simp: let_through_Cons)
  next
    case True
    then obtain b where b: "req_payload rq = Parsed b" by (cases "req_payload rq") auto
    have t: "req_time rq < r" using True Cons.prems(2) by simp
    have "post_submit_contact x e resend cs rq = (cs(ip \<mapsto> (h + 1, r)),
        if h + 1 \<le> max_hits then submit_contact x e resend b else (too_many, []))"
      using post_in_window [of cs rq h r b x e resend] Cons.prems(1) t True b by simp
    then have cs1: "cs1 ip = Some (h + 1, r)"
      and out: "out = (if h + 1 \<le> max_hits then submit_contact x e resend b
                      else (too_many, []))"
      using p by auto
    from Cons.IH [of cs1 "h + 1"] cs1 rest
    have a: "fst ?rest ip =
        Some (h + 1 + length (filter (\<lambda>q. req_ip q = ip \<and> parsed (req_payload q)) rqs), r)"
      and c: "let_through (zip rqs (snd ?rest)) ip \<le> max_hits - (h + 1)"
      by simp_all
    have "let_through ((rq, out) # zip rqs (snd ?rest)) ip \<le> max_hits - h"
    proof (cases "h + 1 \<le> max_hits")
      case True
      then show ?thesis using c out \<open>req_ip rq = ip \<and> parsed (req_payload rq)\<close>
        by (simp add: let_through_Cons handler_never_too_many)
    next
      case False
      then show ?thesis using c out by (simp add: let_through_Cons)
    qed
    then show ?thesis
      unfolding unfold using a True by simp
  qed
qed

text \<open>
  C7, as amended. When a request of an IP that reaches the limiter opens a window (the
  first request of the IP, or the first after the previous window's end), and at least
  five more requests of the IP reach the limiter before the window's end, 15 minutes later,
  then the sixth (and any later one in the window) is answered with 429 and the limiter's
  message, whatever the fields of its body, and nothing else is done for it: no validation,
  no verification, no send. Of all the requests of the IP in the window at most 5 get past
  the limiter. Requests of other IPs in between change nothing. A request whose body cannot
  be parsed does not reach the limiter: it is answered 500 by the error-handling middleware
  and leaves the counters as they are.
\<close>

theorem sixth_parsed_request_is_rejected:
  assumes opens: "cs ip = None \<or> (\<exists>h r. cs ip = Some (h, r) \<and> r \<le> req_time first)"
      and first: "req_ip first = ip" "req_payload first = Parsed b1"
      and sixth: "req_ip sixth = ip" "req_payload sixth = Parsed b6"
      and window: "\<forall>q \<in> set (rqs @ [sixth]).
                     req_ip q = ip \<and> parsed (req_payload q) \<longrightarrow>
                     req_time q < req_time first + windowMs"
      and five: "4 \<le> length (filter (\<lambda>q. req_ip q = ip \<and> parsed (req_payload q)) rqs)"
  shows "last (snd (serve x e resend cs (first # rqs @ [sixth]))) =
           (Text 429 ''Too many form submissions from this IP, please try again later.'', [])
       \<and> let_through (zip (first # rqs @ [sixth])
                          (snd (serve x e resend cs (first # rqs @ [sixth])))) ip \<le> 5
       \<and> (\<forall>cs' q. req_payload q = Unparseable \<longrightarrow>
             post_submit_contact x e resend cs' q =
               (cs', Json 500 False ''Internal server error'' None, [Console UnhandledError]))"
proof -
  let ?r = "req_time first + windowMs"
  let ?cs1 = "cs(ip \<mapsto> (1, ?r))"
  let ?out1 = "submit_contact x e resend b1"
  have p1: "post_submit_contact x e resend cs first = (?cs1, ?out1)"
    using post_opens [of cs first b1 x e resend] opens first by simp
  have unfold: "serve x e resend cs (first # rqs @ [sixth]) =
      (fst (serve x e resend ?cs1 (rqs @ [sixth])),
       ?out1 # snd (serve x e resend ?cs1 (rqs @ [sixth])))"
    by (simp add: p1 split_beta)
  have cs1: "?cs1 ip = Some (1, ?r)" by simp
  have w1: "\<forall>q \<in> set rqs. req_ip q = ip \<and> parsed (req_payload q) \<longrightarrow> req_time q < ?r"
    using window by simp
  let ?cs2 = "fst (serve x e resend ?cs1 rqs)"
  let ?n = "length (filter (\<lambda>q. req_ip q = ip \<and> parsed (req_payload q)) rqs)"
  have cs2: "?cs2 ip = Some (1 + ?n, ?r)"
    using serve_window [of ?cs1 ip 1 ?r rqs x e resend] cs1 w1 by blast
  have t6: "req_time sixth < ?r" using window sixth by simp
  have "post_submit_contact x e resend ?cs2 sixth =
      (?cs2(req_ip sixth \<mapsto> (1 + ?n + 1, ?r)),
       if 1 + ?n + 1 \<le> max_hits then submit_contact x e resend b6 else (too_many, []))"
    using post_in_window [of ?cs2 sixth "1 + ?n" ?r b6 x e resend] cs2 t6 sixth by simp
  then have out6: "snd (post_submit_contact x e resend ?cs2 sixth) = (too_many, [])"
    using five by (simp add: max_hits_def)
  have "last (snd (serve x e resend cs (first # rqs @ [sixth]))) =
      snd (post_submit_contact x e resend ?cs2 sixth)"
    unfolding unfold by (simp add: serve_append)
  then have last: "last (snd (serve x e resend cs (first # rqs @ [sixth]))) = (too_many, [])"
    using out6 by simp
  have "let_through (zip (rqs @ [sixth]) (snd (serve x e resend ?cs1 (rqs @ [sixth])))) ip
      \<le> max_hits - 1"
    using serve_window [of ?cs1 ip 1 ?r "rqs @ [sixth]" x e resend] cs1 window by blast
  then have "let_through (zip (first # rqs @ [sixth])
      (snd (serve x e resend cs (first # rqs @ [sixth])))) ip \<le> 5"
    unfolding unfold by (simp add: let_through_Cons max_hits_def)
  then show ?thesis using last post_unparseable by (simp add: too_many_def)
qed

theorem sixth_parsed_request_is_rejected_witness:
  "(300000 :: nat) < 0 + windowMs
   \<and> last (snd (serve example_externals example_env None Map.empty
         (example_request 0 #
          [example_request 60000, example_request 120000,
           \<lparr>req_time = 150000, req_ip = ''198.51.100.2'', req_payload = Parsed example_body\<rparr>,
           \<lparr>req_time = 160000, req_ip = ''203.0.113.7'', req_payload = Unparseable\<rparr>,
           example_request 180000, example_request 240000]
          @ [\<lparr>req_time = 300000, req_ip = ''203.0.113.7'',
               req_payload = Parsed (\<lambda>f. JUndefined)\<rparr>]))) =
       (Text 429 ''Too many form submissions from this IP, please try again later.'', [])
   \<and> let_through
         (zip (example_request 0 #
               [example_request 60000, example_request 120000,
                \<lparr>req_time = 150000, req_ip = ''198.51.100.2'', req_payload = Parsed example_body\<rparr>,
                \<lparr>req_time = 160000, req_ip = ''203.0.113.7'', req_payload = Unparseable\<rparr>,
                example_request 180000, example_request 240000]
               @ [\<lparr>req_time = 300000, req_ip = ''203.0.113.7'',
                    req_payload = Parsed (\<lambda>f. JUndefined)\<rparr>])
            (snd (serve example_externals example_env None Map.empty
               (example_request 0 #
                [example_request 60000, example_request 120000,
                 \<lparr>req_time = 150000, req_ip = ''198.51.100.2'',
                    req_payload = Parsed example_body\<rparr>,
                 \<lparr>req_time = 160000, req_ip = ''203.0.113.7'', req_payload = Unparseable\<rparr>,
                 example_request 180000, example_request 240000]
                @ [\<lparr>req_time = 300000, req_ip = ''203.0.113.7'',
                     req_payload = Parsed (\<lambda>f. JUndefined)\<rparr>]))))
         ''203.0.113.7'' \<le> 5
   \<and> snd (post_submit_contact example_externals example_env None Map.empty
         \<lparr>req_time = 160000, req_ip = ''203.0.113.7'', req_payload = Unparseable\<rparr>) =
       (Json 500 False ''Internal server error'' None, [Console UnhandledError])"
proof -
  let ?first = "example_request 0"
  let ?rqs = "[example_request 60000, example_request 120000,
               \<lparr>req_time = 150000, req_ip = ''198.51.100.2'', req_payload = Parsed example_body\<rparr>,
               \<lparr>req_time = 160000, req_ip = ''203.0.113.7'', req_payload = Unparseable\<rparr>,
               example_request 180000, example_request 240000]"
  let ?sixth = "\<lparr>req_time = 300000, req_ip = ''203.0.113.7'',
                  req_payload = Parsed (\<lambda>f. JUndefined)\<rparr>"
  have w: "(300000 :: nat) < 0 + windowMs" by (simp add: windowMs_def)
  have c: "last (snd (serve example_externals example_env None Map.empty
              (?first # ?rqs @ [?sixth]))) =
           (Text 429 ''Too many form submissions from this IP, please try again later.'', [])
       \<and> let_through (zip (?first # ?rqs @ [?sixth])
             (snd (serve example_externals example_env None Map.empty
                (?first # ?rqs @ [?sixth])))) ''203.0.113.7'' \<le> 5
       \<and> (\<forall>cs' q. req_payload q = Unparseable \<longrightarrow>
             post_submit_contact example_externals example_env None cs' q =
               (cs', Json 500 False ''Internal server error'' None, [Console UnhandledError]))"
    by (rule sixth_parsed_request_is_rejected
          [where cs = Map.empty and ip = "''203.0.113.7''" and first = ?first
             and ?b1.0 = example_body and ?b6.0 = "\<lambda>f. JUndefined"
             and sixth = ?sixth and rqs = ?rqs
             and x = example_externals and e = example_env and resend = None])
       (simp_all add: example_request_def windowMs_def)
  then have "snd (post_submit_contact example_externals example_env None Map.empty
         \<lparr>req_time = 160000, req_ip = ''203.0.113.7'', req_payload = Unparseable\<rparr>) =
       (Json 500 False ''Internal server error'' None, [Console UnhandledError])"
    by simp
  with c w show ?thesis by blast
qed

text \<open>
  The claim as first stated fails: the sixth request of an IP within the window, sent with
  a body that cannot be parsed, is answered 500 by the error-handling middleware and not
  429, since the body parsers run before the limiter of the route.
\<close>

theorem unparseable_sixth_request_gets_500:
  "last (snd (serve example_externals example_env None Map.empty
         ([example_request 0, example_request 60000, example_request 120000,
           example_request 180000, example_request 240000]
          @ [\<lparr>req_time = 300000, req_ip = ''203.0.113.7'', req_payload = Unparseable\<rparr>]))) =
     (Json 500 False ''Internal server error'' None, [Console UnhandledError])
   \<and> status (fst (last (snd (serve example_externals example_env None Map.empty
         ([example_request 0, example_request 60000, example_request 120000,
           example_request 180000, example_request 240000]
          @ [\<lparr>req_time = 300000, req_ip = ''203.0.113.7'', req_payload = Unparseable\<rparr>]))))) = 500
   \<and> (300000 :: nat) < 0 + windowMs"
proof -
  have "last (snd (serve example_externals example_env None Map.empty
         ([example_request 0, example_request 60000, example_request 120000,
           example_request 180000, example_request 240000]
          @ [\<lparr>req_time = 300000, req_ip = ''203.0.113.7'', req_payload = Unparseable\<rparr>]))) =
     (Json 500 False ''Internal server error'' None, [Console UnhandledError])"
    unfolding serve_append by (simp add: post_unparseable)
  then show ?thesis by (simp add: windowMs_def)
qed

end
